theory Spec2Isabelle
  imports Complex_Main
begin

section \<open>Expressions, exceptions and printed output\<close>

text \<open>
  The networks of \<^verbatim>\<open>lcapy/oneport.py\<close> and \<^verbatim>\<open>lcapy/twoport.py\<close> compute with the
  symbolic expressions of \<^verbatim>\<open>lcapy.core\<close> (sympy underneath). The expression type is a
  parameter of this development: a type \<open>'a\<close> of class \<open>field\<close>, with \<open>=\<close> for the
  comparison \<^verbatim>\<open>==\<close> of two simplified expressions. The wrappers \<^verbatim>\<open>Vs\<close>, \<^verbatim>\<open>Is\<close>,
  \<^verbatim>\<open>Zs\<close>, \<^verbatim>\<open>Ys\<close>, \<^verbatim>\<open>cExpr\<close>, \<^verbatim>\<open>sExpr\<close> and \<^verbatim>\<open>sym.simplify\<close> keep the value
  of an expression and are not written. In a field the quotient by zero is not what sympy
  computes; the statements made over a field do not read such a quotient. Where a
  statement does (the degenerate conversion of a chain matrix, the reciprocal views of a
  source), the expressions are those of the type \<open>'a ext\<close> below, with sympy's \<^verbatim>\<open>zoo\<close>
  and \<^verbatim>\<open>nan\<close>.

  A Python call may raise, and may print or warn before it returns or raises. A computation
  is a pair: what was written (in order), and either the exception or the value.
\<close>

datatype error = ValueError string | TypeError string | AttributeError string

datatype written = Warned string | Printed string

type_synonym 'a eff = "written list \<times> (error + 'a)"

definition ret :: "'a \<Rightarrow> 'a eff" where
  "ret x = ([], Inr x)"

definition raise :: "error \<Rightarrow> 'a eff" where
  "raise e = ([], Inl e)"

definition warn :: "string \<Rightarrow> unit eff" where
  "warn msg = ([Warned msg], Inr ())"

definition print :: "string \<Rightarrow> unit eff" where
  "print msg = ([Printed msg], Inr ())"

definition bind_eff :: "'a eff \<Rightarrow> ('a \<Rightarrow> 'b eff) \<Rightarrow> 'b eff" where
  "bind_eff m f =
     (case m of
        (w, Inl e) \<Rightarrow> (w, Inl e)
      | (w, Inr x) \<Rightarrow> (case f x of (w', r) \<Rightarrow> (w @ w', r)))"

definition when_eff :: "bool \<Rightarrow> unit eff \<Rightarrow> unit eff" where
  "when_eff b m = (if b then m else ret ())"

section \<open>Expressions with \<^verbatim>\<open>zoo\<close> and \<^verbatim>\<open>nan\<close>\<close>

text \<open>
  sympy does not raise on a division by zero: \<^verbatim>\<open>x / 0\<close> is the complex infinity
  \<^verbatim>\<open>zoo\<close> for \<open>x\<close> not zero and \<^verbatim>\<open>nan\<close> for \<open>x\<close> zero, and \<^verbatim>\<open>1 / zoo\<close> is \<open>0\<close>.
  \<open>Fin x\<close> is the expression with the finite value \<open>x\<close>. The operations follow sympy:
  \<^verbatim>\<open>zoo + zoo\<close>, \<^verbatim>\<open>zoo - zoo\<close>, \<^verbatim>\<open>0 * zoo\<close> and \<^verbatim>\<open>zoo / zoo\<close> are \<^verbatim>\<open>nan\<close>;
  \<^verbatim>\<open>zoo\<close> plus a finite value, \<^verbatim>\<open>-zoo\<close>, \<^verbatim>\<open>zoo * zoo\<close> and \<^verbatim>\<open>zoo\<close> times a finite
  value other than zero are \<^verbatim>\<open>zoo\<close>; every operation on \<^verbatim>\<open>nan\<close> gives \<^verbatim>\<open>nan\<close>.
\<close>

datatype 'a ext = Fin 'a | Zoo | Nan

instantiation ext :: (field) "{zero, one, plus, uminus, minus, times, inverse}"
begin

definition zero_ext :: "'a ext" where
  "zero_ext = Fin 0"

definition one_ext :: "'a ext" where
  "one_ext = Fin 1"

fun plus_ext :: "'a ext \<Rightarrow> 'a ext \<Rightarrow> 'a ext" where
  "plus_ext Nan y = Nan"
| "plus_ext x Nan = Nan"
| "plus_ext Zoo Zoo = Nan"
| "plus_ext Zoo (Fin b) = Zoo"
| "plus_ext (Fin a) Zoo = Zoo"
| "plus_ext (Fin a) (Fin b) = Fin (a + b)"

fun uminus_ext :: "'a ext \<Rightarrow> 'a ext" where
  "uminus_ext (Fin a) = Fin (- a)"
| "uminus_ext Zoo = Zoo"
| "uminus_ext Nan = Nan"

definition minus_ext :: "'a ext \<Rightarrow> 'a ext \<Rightarrow> 'a ext" where
  "minus_ext x y = x + (- y)"

fun times_ext :: "'a ext \<Rightarrow> 'a ext \<Rightarrow> 'a ext" where
  "times_ext Nan y = Nan"
| "times_ext x Nan = Nan"
| "times_ext Zoo Zoo = Zoo"
| "times_ext Zoo (Fin b) = (if b = 0 then Nan else Zoo)"
| "times_ext (Fin a) Zoo = (if a = 0 then Nan else Zoo)"
| "times_ext (Fin a) (Fin b) = Fin (a * b)"

fun inverse_ext :: "'a ext \<Rightarrow> 'a ext" where
  "inverse_ext (Fin a) = (if a = 0 then Zoo else Fin (inverse a))"
| "inverse_ext Zoo = Fin 0"
| "inverse_ext Nan = Nan"

definition divide_ext :: "'a ext \<Rightarrow> 'a ext \<Rightarrow> 'a ext" where
  "divide_ext x y = x * inverse y"

instance ..

end

instance ext :: (field) monoid_add
proof
  fix a b c :: "'a ext"
  show "a + b + c = a + (b + c)"
    by (cases a; cases b; cases c) (simp_all add: add.assoc)
  show "0 + a = a"
    by (cases a) (simp_all add: zero_ext_def)
  show "a + 0 = a"
    by (cases a) (simp_all add: zero_ext_def)
qed

section \<open>Two-port matrices\<close>

text \<open>
  \<^verbatim>\<open>TwoPortMatrix\<close> is a 2 by 2 matrix of expressions; its six subclasses give the
  representation. \<open>Mat a b c d\<close> is the matrix \<^verbatim>\<open>((a, b), (c, d))\<close>.
\<close>

datatype 'a mat = Mat (m11: 'a) (m12: 'a) (m21: 'a) (m22: 'a)

datatype kind = AMatrix | BMatrix | GMatrix | HMatrix | YMatrix | ZMatrix

type_synonym 'a twoportmatrix = "kind \<times> 'a mat"

definition det :: "'a::{times, minus} mat \<Rightarrow> 'a" where
  "det M = m11 M * m22 M - m12 M * m21 M"

definition mat_mul :: "'a::field mat \<Rightarrow> 'a mat \<Rightarrow> 'a mat" where
  "mat_mul P Q =
     Mat (m11 P * m11 Q + m12 P * m21 Q) (m11 P * m12 Q + m12 P * m22 Q)
         (m21 P * m11 Q + m22 P * m21 Q) (m21 P * m12 Q + m22 P * m22 Q)"

definition mat_add :: "'a::field mat \<Rightarrow> 'a mat \<Rightarrow> 'a mat" where
  "mat_add P Q = Mat (m11 P + m11 Q) (m12 P + m12 Q) (m21 P + m21 Q) (m22 P + m22 Q)"

definition mat_vec :: "'a::field mat \<Rightarrow> 'a \<times> 'a \<Rightarrow> 'a \<times> 'a" where
  "mat_vec P v = (m11 P * fst v + m12 P * snd v, m21 P * fst v + m22 P * snd v)"

definition vec_add :: "'a::field \<times> 'a \<Rightarrow> 'a \<times> 'a \<Rightarrow> 'a \<times> 'a" where
  "vec_add u v = (fst u + fst v, snd u + snd v)"

text \<open>
  \<^verbatim>\<open>Matrix.inv\<close> is sympy's: it raises on a matrix whose determinant is the zero
  expression, and returns the inverse otherwise.
\<close>

definition Matrix_inv :: "'a::field mat \<Rightarrow> 'a mat eff" where
  "Matrix_inv M =
     (if det M = 0 then raise (ValueError ''Matrix det == 0; not invertible.'')
      else ret (Mat (m22 M / det M) (- m12 M / det M) (- m21 M / det M) (m11 M / det M)))"

subsection \<open>Conversions of the chain matrix\<close>

definition AMatrix_B :: "'a::field mat \<Rightarrow> 'a mat eff" where
  "AMatrix_B A =
     (let d = det A in
      bind_eff (when_eff (d = 0) (warn ''Producing dodgy B matrix''))
        (\<lambda>_. ret (Mat (m22 A / d) (- m12 A / d) (- m21 A / d) (m11 A / d))))"

text \<open>
  \<^verbatim>\<open>AMatrix.Z\<close> divides by \<open>A21\<close>, which is the zero expression for a series element:
  it is written over \<open>'a ext\<close>.
\<close>

definition AMatrix_Z :: "'a::field ext mat \<Rightarrow> 'a ext mat eff" where
  "AMatrix_Z A =
     bind_eff (when_eff (m21 A = 0) (warn ''Producing dodgy Z matrix''))
       (\<lambda>_. ret (Mat (m11 A / m21 A) (det A / m21 A) (1 / m21 A) (m22 A / m21 A)))"

text \<open>\<^verbatim>\<open>AMatrix.Zseries\<close>: the chain matrix of a series impedance.\<close>

definition AMatrix_Zseries :: "'a::{zero, one} \<Rightarrow> 'a mat" where
  "AMatrix_Zseries Zval = Mat 1 Zval 0 1"

subsection \<open>Conversions of the inverse chain matrix\<close>

definition BMatrix_A :: "'a::field mat \<Rightarrow> 'a mat" where
  "BMatrix_A B =
     (let d = det B in Mat (m22 B / d) (- m12 B / d) (- m21 B / d) (m11 B / d))"

definition BMatrix_G :: "'a::field mat \<Rightarrow> 'a mat" where
  "BMatrix_G B = Mat (- m21 B / m22 B) (- 1 / m22 B) (det B / m22 B) (- m12 B / m22 B)"

definition BMatrix_Y :: "'a::field mat \<Rightarrow> 'a mat" where
  "BMatrix_Y B = Mat (- m11 B / m12 B) (1 / m12 B) (det B / m12 B) (- m22 B / m12 B)"

definition BMatrix_Zseries :: "'a::field \<Rightarrow> 'a mat" where
  "BMatrix_Zseries Zval = Mat 1 (- Zval) 0 1"

definition BMatrix_Yshunt :: "'a::field \<Rightarrow> 'a mat" where
  "BMatrix_Yshunt Yval = Mat 1 0 (- Yval) 1"

subsection \<open>Conversions of the other four representations\<close>

definition GMatrix_B :: "'a::field mat \<Rightarrow> 'a mat" where
  "GMatrix_B G = Mat (- det G / m12 G) (m22 G / m12 G) (m11 G / m12 G) (- 1 / m12 G)"

definition GMatrix_H :: "'a::field mat \<Rightarrow> 'a mat eff" where
  "GMatrix_H G = Matrix_inv G"

definition HMatrix_B :: "'a::field mat \<Rightarrow> 'a mat" where
  "HMatrix_B H = Mat (1 / m12 H) (- m11 H / m12 H) (- m22 H / m12 H) (det H / m12 H)"

definition HMatrix_Y :: "'a::field mat \<Rightarrow> 'a mat" where
  "HMatrix_Y H = Mat (1 / m11 H) (- m12 H / m11 H) (m21 H / m11 H) (det H / m11 H)"

definition GMatrix_Y :: "'a::field mat \<Rightarrow> 'a mat eff" where
  "GMatrix_Y G = bind_eff (GMatrix_H G) (\<lambda>H. ret (HMatrix_Y H))"

definition YMatrix_B :: "'a::field mat \<Rightarrow> 'a mat" where
  "YMatrix_B Y = Mat (- m11 Y / m12 Y) (1 / m12 Y) (det Y / m12 Y) (- m22 Y / m12 Y)"

definition YMatrix_H :: "'a::field mat \<Rightarrow> 'a mat" where
  "YMatrix_H Y = Mat (1 / m11 Y) (- m12 Y / m11 Y) (m21 Y / m11 Y) (det Y / m11 Y)"

definition ZMatrix_B :: "'a::field mat \<Rightarrow> 'a mat" where
  "ZMatrix_B Z = Mat (m22 Z / m12 Z) (- det Z / m12 Z) (- 1 / m12 Z) (m11 Z / m12 Z)"

definition ZMatrix_H :: "'a::field mat \<Rightarrow> 'a mat" where
  "ZMatrix_H Z = Mat (det Z / m22 Z) (m12 Z / m22 Z) (- m21 Z / m22 Z) (1 / m22 Z)"

definition ZMatrix_Y :: "'a::field mat \<Rightarrow> 'a mat" where
  "ZMatrix_Y Z =
     (let d = det Z in Mat (m22 Z / d) (- m12 Z / d) (- m21 Z / d) (m11 Z / d))"

text \<open>
  \<^verbatim>\<open>HMatrix\<close>, \<^verbatim>\<open>YMatrix\<close> and \<^verbatim>\<open>ZMatrix\<close> define no \<^verbatim>\<open>G\<close>: they inherit the fallback
  \<^verbatim>\<open>TwoPortMatrix.G\<close>, which inverts \<^verbatim>\<open>self.H\<close>.
\<close>

definition TwoPortMatrix_G :: "'a::field mat \<Rightarrow> 'a mat eff" where
  "TwoPortMatrix_G H = Matrix_inv H"

section \<open>Two-port networks\<close>

subsection \<open>The classes of \<^verbatim>\<open>twoport.py\<close>\<close>

datatype tpclass =
    cls_Network | cls_TwoPort
  | cls_TwoPortBModel | cls_TwoPortGModel | cls_TwoPortHModel | cls_TwoPortYModel
  | cls_TwoPortZModel
  | cls_Chain | cls_Par2 | cls_Ser2 | cls_Hybrid2 | cls_InverseHybrid2
  | cls_Series | cls_Shunt | cls_IdealTransformer | cls_TF | cls_IdealGyrator
  | cls_VoltageFollower | cls_VoltageAmplifier | cls_IdealVoltageAmplifier | cls_IdealDelay
  | cls_IdealVoltageDifferentiator | cls_IdealVoltageIntegrator | cls_CurrentFollower
  | cls_IdealCurrentAmplifier | cls_IdealCurrentDifferentiator | cls_IdealCurrentIntegrator
  | cls_OpampInverter | cls_OpampIntegrator | cls_OpampDifferentiator
  | cls_TSection | cls_TwinTSection | cls_BridgedTSection | cls_PiSection | cls_LSection
  | cls_Ladder | cls_GeneralTxLine | cls_LosslessTxLine | cls_TxLine

text \<open>
  The base class each \<^verbatim>\<open>class\<close> statement names (every class has one base). The classes
  of the last equation are those declared as \<^verbatim>\<open>class X(TwoPortBModel)\<close>.
\<close>

fun superclass :: "tpclass \<Rightarrow> tpclass option" where
  "superclass cls_Network = None"
| "superclass cls_TwoPort = Some cls_Network"
| "superclass cls_TwoPortBModel = Some cls_TwoPort"
| "superclass cls_TwoPortGModel = Some cls_TwoPort"
| "superclass cls_TwoPortHModel = Some cls_TwoPort"
| "superclass cls_TwoPortYModel = Some cls_TwoPort"
| "superclass cls_TwoPortZModel = Some cls_TwoPort"
| "superclass cls_Chain = Some cls_TwoPortBModel"
| "superclass cls_Par2 = Some cls_TwoPortYModel"
| "superclass cls_Ser2 = Some cls_TwoPortZModel"
| "superclass cls_Hybrid2 = Some cls_TwoPortHModel"
| "superclass cls_InverseHybrid2 = Some cls_TwoPortGModel"
| "superclass cls_TF = Some cls_IdealTransformer"
| "superclass cls_IdealVoltageAmplifier = Some cls_VoltageAmplifier"
| "superclass cls_LosslessTxLine = Some cls_GeneralTxLine"
| "superclass cls_TxLine = Some cls_GeneralTxLine"
| "superclass _ = Some cls_TwoPortBModel"

fun rank :: "tpclass \<Rightarrow> nat" where
  "rank cls_Network = 0"
| "rank cls_TwoPort = 1"
| "rank cls_TwoPortBModel = 2"
| "rank cls_TwoPortGModel = 2"
| "rank cls_TwoPortHModel = 2"
| "rank cls_TwoPortYModel = 2"
| "rank cls_TwoPortZModel = 2"
| "rank cls_TF = 4"
| "rank cls_IdealVoltageAmplifier = 4"
| "rank cls_LosslessTxLine = 4"
| "rank cls_TxLine = 4"
| "rank _ = 3"

lemma superclass_rank: "superclass c = Some d \<Longrightarrow> rank d < rank c"
  by (cases c) auto

text \<open>The method resolution order of a class: the class, then its bases upwards.\<close>

function mro :: "tpclass \<Rightarrow> tpclass list" where
  "mro c = c # (case superclass c of None \<Rightarrow> [] | Some d \<Rightarrow> mro d)"
  by pat_completeness auto
termination
  by (relation "measure rank") (auto simp: superclass_rank)

declare mro.simps [simp del]

definition issubclass :: "tpclass \<Rightarrow> tpclass \<Rightarrow> bool" where
  "issubclass c d = (d \<in> set (mro c))"

text \<open>
  \<^verbatim>\<open>super(c, self)\<close> for an object \<^verbatim>\<open>self\<close> of class \<open>k\<close>: Python raises
  \<^verbatim>\<open>TypeError\<close> unless \<open>k\<close> is \<open>c\<close> or a subclass of it, and gives the class after
  \<open>c\<close> in the resolution order of \<open>k\<close> otherwise (after \<^verbatim>\<open>Network\<close> comes \<^verbatim>\<open>object\<close>, whose
  \<^verbatim>\<open>__init__\<close> takes no argument).
\<close>

definition py_super :: "tpclass \<Rightarrow> tpclass \<Rightarrow> tpclass eff" where
  "py_super c k =
     (if \<not> issubclass k c
      then raise (TypeError ''super(type, obj): obj must be an instance or subtype of type'')
      else (case dropWhile (\<lambda>d. d \<noteq> c) (mro k) of
              _ # d # _ \<Rightarrow> ret d
            | _ \<Rightarrow> raise (TypeError ''object.__init__() takes no arguments'')))"

subsection \<open>Two-port objects\<close>

text \<open>
  A two-port object is an instance of one of the five model classes or of a subclass:
  its class, the matrix \<^verbatim>\<open>_M\<close> and its two source attributes
  (\<^verbatim>\<open>_V2b\<close>, \<^verbatim>\<open>_I2b\<close>; \<^verbatim>\<open>_V1g\<close>, \<^verbatim>\<open>_I2g\<close>, which hold \<open>I1g\<close> and \<open>V2g\<close>;
  \<^verbatim>\<open>_V1h\<close>, \<^verbatim>\<open>_I2h\<close>; \<^verbatim>\<open>_I1y\<close>, \<^verbatim>\<open>_I2y\<close>; \<^verbatim>\<open>_V1z\<close>, \<^verbatim>\<open>_V2z\<close>). Each
  \<^verbatim>\<open>__init__\<close> checks the class of the matrix, so the constructor fixes its kind.
  The checks of the kind of the two source terms (\<^verbatim>\<open>Vs\<close>, \<^verbatim>\<open>Is\<close>) are not written:
  expressions carry no kind here.
\<close>

datatype 'a twoport =
    TwoPortBModel tpclass "'a mat" 'a 'a
  | TwoPortGModel tpclass "'a mat" 'a 'a
  | TwoPortHModel tpclass "'a mat" 'a 'a
  | TwoPortYModel tpclass "'a mat" 'a 'a
  | TwoPortZModel tpclass "'a mat" 'a 'a

fun class_of :: "'a twoport \<Rightarrow> tpclass" where
  "class_of (TwoPortBModel c M x y) = c"
| "class_of (TwoPortGModel c M x y) = c"
| "class_of (TwoPortHModel c M x y) = c"
| "class_of (TwoPortYModel c M x y) = c"
| "class_of (TwoPortZModel c M x y) = c"

definition isinstance :: "'a twoport \<Rightarrow> tpclass \<Rightarrow> bool" where
  "isinstance T c = issubclass (class_of T) c"

text \<open>
  The first argument of a model's \<^verbatim>\<open>__init__\<close> is a matrix, or a two-port to copy.
\<close>

datatype 'a init_arg = OfMatrix "'a twoportmatrix" | OfTwoPort "'a twoport"

fun TwoPortBModel_init :: "tpclass \<Rightarrow> 'a init_arg \<Rightarrow> 'a \<Rightarrow> 'a \<Rightarrow> 'a twoport eff" where
  "TwoPortBModel_init k (OfTwoPort (TwoPortBModel c M V2b' I2b')) V2b I2b =
     ret (TwoPortBModel k M V2b' I2b')"
| "TwoPortBModel_init k (OfMatrix (BMatrix, M)) V2b I2b = ret (TwoPortBModel k M V2b I2b)"
| "TwoPortBModel_init k _ V2b I2b = raise (ValueError ''B not BMatrix'')"

text \<open>
  \<^verbatim>\<open>TwoPortGModel.__init__\<close> reads \<^verbatim>\<open>_I1g\<close> and \<^verbatim>\<open>_V2g\<close> of a two-port it is to copy;
  no object has these attributes.
\<close>

fun TwoPortGModel_init :: "tpclass \<Rightarrow> 'a init_arg \<Rightarrow> 'a \<Rightarrow> 'a \<Rightarrow> 'a twoport eff" where
  "TwoPortGModel_init k (OfTwoPort (TwoPortGModel c M x y)) I1g V2g =
     raise (AttributeError ''_I1g'')"
| "TwoPortGModel_init k (OfMatrix (GMatrix, M)) I1g V2g = ret (TwoPortGModel k M I1g V2g)"
| "TwoPortGModel_init k _ I1g V2g = raise (ValueError ''G not GMatrix'')"

fun TwoPortHModel_init :: "tpclass \<Rightarrow> 'a init_arg \<Rightarrow> 'a \<Rightarrow> 'a \<Rightarrow> 'a twoport eff" where
  "TwoPortHModel_init k (OfTwoPort (TwoPortHModel c M V1h' I2h')) V1h I2h =
     ret (TwoPortHModel k M V1h' I2h')"
| "TwoPortHModel_init k (OfMatrix (HMatrix, M)) V1h I2h = ret (TwoPortHModel k M V1h I2h)"
| "TwoPortHModel_init k _ V1h I2h = raise (ValueError ''H not HMatrix'')"

fun TwoPortYModel_init :: "tpclass \<Rightarrow> 'a init_arg \<Rightarrow> 'a \<Rightarrow> 'a \<Rightarrow> 'a twoport eff" where
  "TwoPortYModel_init k (OfTwoPort (TwoPortYModel c M I1y' I2y')) I1y I2y =
     ret (TwoPortYModel k M I1y' I2y')"
| "TwoPortYModel_init k (OfMatrix (YMatrix, M)) I1y I2y = ret (TwoPortYModel k M I1y I2y)"
| "TwoPortYModel_init k _ I1y I2y = raise (ValueError ''Y not YMatrix'')"

fun TwoPortZModel_init :: "tpclass \<Rightarrow> 'a init_arg \<Rightarrow> 'a \<Rightarrow> 'a \<Rightarrow> 'a twoport eff" where
  "TwoPortZModel_init k (OfTwoPort (TwoPortZModel c M V1z' V2z')) V1z V2z =
     ret (TwoPortZModel k M V1z' V2z')"
| "TwoPortZModel_init k (OfMatrix (ZMatrix, M)) V1z V2z = ret (TwoPortZModel k M V1z V2z)"
| "TwoPortZModel_init k _ V1z V2z = raise (ValueError ''Z not ZMatrix'')"

text \<open>
  The \<^verbatim>\<open>__init__\<close> of class \<open>c\<close>, called on an object of class \<open>k\<close> with a matrix and two
  source terms: this is what \<^verbatim>\<open>super(..., self).__init__(M, x, y)\<close> runs once
  \<^verbatim>\<open>super\<close> has found \<open>c\<close>. Only the five model classes take these arguments.
\<close>

definition model_init ::
  "tpclass \<Rightarrow> tpclass \<Rightarrow> 'a init_arg \<Rightarrow> 'a \<Rightarrow> 'a \<Rightarrow> 'a twoport eff" where
  "model_init c k M x y =
     (if c = cls_TwoPortBModel then TwoPortBModel_init k M x y
      else if c = cls_TwoPortGModel then TwoPortGModel_init k M x y
      else if c = cls_TwoPortHModel then TwoPortHModel_init k M x y
      else if c = cls_TwoPortYModel then TwoPortYModel_init k M x y
      else if c = cls_TwoPortZModel then TwoPortZModel_init k M x y
      else raise (TypeError ''__init__() takes no such arguments''))"

subsection \<open>Properties of a two-port\<close>

text \<open>
  \<^verbatim>\<open>B\<close>: \<^verbatim>\<open>TwoPortBModel\<close> returns \<^verbatim>\<open>_M\<close>; the other models inherit
  \<^verbatim>\<open>TwoPort.B\<close>, the conversion \<^verbatim>\<open>_M.B\<close>.
\<close>

fun tp_B :: "'a::field twoport \<Rightarrow> 'a mat" where
  "tp_B (TwoPortBModel c M V2b I2b) = M"
| "tp_B (TwoPortGModel c M I1g V2g) = GMatrix_B M"
| "tp_B (TwoPortHModel c M V1h I2h) = HMatrix_B M"
| "tp_B (TwoPortYModel c M I1y I2y) = YMatrix_B M"
| "tp_B (TwoPortZModel c M V1z V2z) = ZMatrix_B M"

fun tp_V2b :: "'a::field twoport \<Rightarrow> 'a" where
  "tp_V2b (TwoPortBModel c M V2b I2b) = V2b"
| "tp_V2b (TwoPortGModel c M I1g V2g) = I1g / m12 M"
| "tp_V2b (TwoPortHModel c M V1h I2h) = V1h / m12 M"
| "tp_V2b (TwoPortYModel c M I1y I2y) = I1y * m11 M / m22 M"
| "tp_V2b (TwoPortZModel c M V1z V2z) = V2z - V1z * m22 M / m12 M"

fun tp_I2b :: "'a::field twoport \<Rightarrow> 'a" where
  "tp_I2b (TwoPortBModel c M V2b I2b) = I2b"
| "tp_I2b (TwoPortGModel c M I1g V2g) = m22 M / m12 M * I1g - V2g"
| "tp_I2b (TwoPortHModel c M V1h I2h) = m22 M / m12 M * V1h - I2h"
| "tp_I2b (TwoPortYModel c M I1y I2y) = - I1y * m11 M * m22 M / m12 M - I2y"
| "tp_I2b (TwoPortZModel c M V1z V2z) = V1z / m12 M"

text \<open>
  \<^verbatim>\<open>I1y\<close>, \<^verbatim>\<open>I2y\<close>: stored by a Y-model, computed from the Z matrix by a Z-model, and
  \<^verbatim>\<open>TwoPort.I1y\<close>, \<^verbatim>\<open>TwoPort.I2y\<close> (from \<open>V2b\<close>, \<open>I2b\<close> and \<open>B\<close>) for the others.
\<close>

fun tp_I1y :: "'a::field twoport \<Rightarrow> 'a" where
  "tp_I1y (TwoPortYModel c M I1y I2y) = I1y"
| "tp_I1y (TwoPortZModel c M V1z V2z) =
     (let Zdet = det M in - V1z * m22 M / Zdet - V2z * m12 M / Zdet)"
| "tp_I1y T = - tp_V2b T / m12 (tp_B T)"

fun tp_I2y :: "'a::field twoport \<Rightarrow> 'a" where
  "tp_I2y (TwoPortYModel c M I1y I2y) = I2y"
| "tp_I2y (TwoPortZModel c M V1z V2z) =
     (let Zdet = det M in V1z * m21 M / Zdet - V2z * m11 M / Zdet)"
| "tp_I2y T = tp_V2b T * m22 (tp_B T) / m12 (tp_B T) - tp_I2b T"

fun tp_Y :: "'a::field twoport \<Rightarrow> 'a mat eff" where
  "tp_Y (TwoPortBModel c M V2b I2b) = ret (BMatrix_Y M)"
| "tp_Y (TwoPortGModel c M I1g V2g) = GMatrix_Y M"
| "tp_Y (TwoPortHModel c M V1h I2h) = ret (HMatrix_Y M)"
| "tp_Y (TwoPortYModel c M I1y I2y) = ret M"
| "tp_Y (TwoPortZModel c M V1z V2z) = ret (ZMatrix_Y M)"

text \<open>
  \<^verbatim>\<open>I1g\<close>, \<^verbatim>\<open>V2g\<close>: stored by a G-model, \<^verbatim>\<open>TwoPort.I1g\<close> and \<^verbatim>\<open>TwoPort.V2g\<close> for the
  others.
\<close>

fun tp_I1g :: "'a::field twoport \<Rightarrow> 'a" where
  "tp_I1g (TwoPortGModel c M I1g V2g) = I1g"
| "tp_I1g T = - tp_I2b T / m22 (tp_B T)"

fun tp_V2g :: "'a::field twoport \<Rightarrow> 'a" where
  "tp_V2g (TwoPortGModel c M I1g V2g) = V2g"
| "tp_V2g T = tp_V2b T - m12 (tp_B T) / m22 (tp_B T) * tp_I2b T"

fun tp_G :: "'a::field twoport \<Rightarrow> 'a mat eff" where
  "tp_G (TwoPortBModel c M V2b I2b) = ret (BMatrix_G M)"
| "tp_G (TwoPortGModel c M I1g V2g) = ret M"
| "tp_G (TwoPortHModel c M V1h I2h) = TwoPortMatrix_G M"
| "tp_G (TwoPortYModel c M I1y I2y) = TwoPortMatrix_G (YMatrix_H M)"
| "tp_G (TwoPortZModel c M V1z V2z) = TwoPortMatrix_G (ZMatrix_H M)"

text \<open>
  \<^verbatim>\<open>Series(OP)\<close> and \<^verbatim>\<open>Shunt(OP)\<close>, from the impedance and open-circuit voltage, or the
  admittance and short-circuit current, of the one-port \<^verbatim>\<open>OP\<close>.
\<close>

definition Series :: "'a::field \<Rightarrow> 'a \<Rightarrow> 'a twoport" where
  "Series Z Voc = TwoPortBModel cls_Series (BMatrix_Zseries Z) Voc 0"

definition Shunt :: "'a::field \<Rightarrow> 'a \<Rightarrow> 'a twoport" where
  "Shunt Y Isc = TwoPortBModel cls_Shunt (BMatrix_Yshunt Y) 0 Isc"

subsection \<open>Combinators\<close>

text \<open>
  \<^verbatim>\<open>_check_twoport_args\<close>: exactly two arguments (that each is a \<^verbatim>\<open>TwoPort\<close> holds by
  the type of the list). The class name formatted into the message is left out.
\<close>

definition check_twoport_args :: "'a twoport list \<Rightarrow> unit eff" where
  "check_twoport_args args =
     (if length args \<noteq> 2 then raise (ValueError ''Only two args supported'') else ret ())"

text \<open>
  \<^verbatim>\<open>Chain.__init__\<close>: from the last network backwards, \<^verbatim>\<open>foo += B * Vector(V2b, I2b)\<close>
  and \<^verbatim>\<open>B = B * arg.B\<close>.
\<close>

fun Chain_loop ::
  "'a::field twoport list \<Rightarrow> 'a mat \<times> ('a \<times> 'a) \<Rightarrow> 'a mat \<times> ('a \<times> 'a)" where
  "Chain_loop [] (B, foo) = (B, foo)"
| "Chain_loop (arg # rest) (B, foo) =
     Chain_loop rest
       (mat_mul B (tp_B arg), vec_add foo (mat_vec B (tp_V2b arg, tp_I2b arg)))"

definition Chain_init :: "'a::field twoport list \<Rightarrow> 'a twoport eff" where
  "Chain_init args =
     bind_eff (check_twoport_args args) (\<lambda>_.
       let arg1 = last args;
           (B, foo) = Chain_loop (rev (butlast args)) (tp_B arg1, (tp_V2b arg1, tp_I2b arg1))
       in bind_eff (py_super cls_Chain cls_Chain) (\<lambda>c.
            model_init c cls_Chain (OfMatrix (BMatrix, B)) (fst foo) (snd foo)))"

text \<open>\<^verbatim>\<open>Par2.__init__\<close>.\<close>

fun Par2_loop ::
  "'a::field twoport list \<Rightarrow> 'a \<times> 'a \<times> 'a mat \<Rightarrow> ('a \<times> 'a \<times> 'a mat) eff" where
  "Par2_loop [] acc = ret acc"
| "Par2_loop (arg # rest) (I1y, I2y, Y) =
     bind_eff (tp_Y arg) (\<lambda>Ya.
       Par2_loop rest (I1y + tp_I1y arg, I2y + tp_I2y arg, mat_add Y Ya))"

definition Par2_init :: "'a::field twoport list \<Rightarrow> 'a twoport eff" where
  "Par2_init args =
     bind_eff (check_twoport_args args) (\<lambda>_.
     bind_eff (when_eff (isinstance (args ! 0) cls_Shunt \<or> isinstance (args ! 1) cls_Shunt)
                 (print ''Warning: need to handle a Shunt in parallel'')) (\<lambda>_.
     let arg = args ! 0 in
     bind_eff (tp_Y arg) (\<lambda>Y.
     bind_eff (Par2_loop (tl args) (tp_I1y arg, tp_I2y arg, Y)) (\<lambda>(I1y, I2y, Y).
     bind_eff (py_super cls_Par2 cls_Par2) (\<lambda>c.
       model_init c cls_Par2 (OfMatrix (YMatrix, Y)) I1y I2y)))))"

text \<open>\<^verbatim>\<open>InverseHybrid2.__init__\<close>; its last line is \<^verbatim>\<open>super(Hybrid2, self).__init__(G, I1g, V2g)\<close>.\<close>

fun InverseHybrid2_loop ::
  "'a::field twoport list \<Rightarrow> 'a \<times> 'a \<times> 'a mat \<Rightarrow> ('a \<times> 'a \<times> 'a mat) eff" where
  "InverseHybrid2_loop [] acc = ret acc"
| "InverseHybrid2_loop (arg # rest) (I1g, V2g, G) =
     bind_eff (tp_G arg) (\<lambda>Ga.
       InverseHybrid2_loop rest (I1g + tp_I1g arg, V2g + tp_V2g arg, mat_add G Ga))"

definition InverseHybrid2_init :: "'a::field twoport list \<Rightarrow> 'a twoport eff" where
  "InverseHybrid2_init args =
     bind_eff (check_twoport_args args) (\<lambda>_.
     let arg = args ! 0 in
     bind_eff (tp_G arg) (\<lambda>G.
     bind_eff (InverseHybrid2_loop (tl args) (tp_I1g arg, tp_V2g arg, G)) (\<lambda>(I1g, V2g, G).
     bind_eff (py_super cls_Hybrid2 cls_InverseHybrid2) (\<lambda>c.
       model_init c cls_InverseHybrid2 (OfMatrix (GMatrix, G)) I1g V2g))))"

section \<open>One-port networks\<close>

subsection \<open>The classes of \<^verbatim>\<open>oneport.py\<close>\<close>

datatype opclass =
    oc_Network | oc_OnePort | oc_ParSer | oc_Par | oc_Ser | oc_Norton | oc_Thevenin
  | oc_R | oc_G | oc_L | oc_C | oc_Y | oc_Z
  | oc_VoltageSource | oc_sV | oc_V | oc_Vstep | oc_Vdc | oc_Vac | oc_v
  | oc_CurrentSource | oc_sI | oc_I | oc_Istep | oc_Idc | oc_Iac | oc_i
  | oc_Xtal | oc_FerriteBead

fun op_superclass :: "opclass \<Rightarrow> opclass option" where
  "op_superclass oc_Network = None"
| "op_superclass oc_OnePort = Some oc_Network"
| "op_superclass oc_ParSer = Some oc_OnePort"
| "op_superclass oc_Par = Some oc_ParSer"
| "op_superclass oc_Ser = Some oc_ParSer"
| "op_superclass oc_Norton = Some oc_OnePort"
| "op_superclass oc_Thevenin = Some oc_OnePort"
| "op_superclass oc_R = Some oc_Thevenin"
| "op_superclass oc_G = Some oc_Norton"
| "op_superclass oc_L = Some oc_Thevenin"
| "op_superclass oc_C = Some oc_Thevenin"
| "op_superclass oc_Y = Some oc_Norton"
| "op_superclass oc_Z = Some oc_Thevenin"
| "op_superclass oc_VoltageSource = Some oc_Thevenin"
| "op_superclass oc_sV = Some oc_VoltageSource"
| "op_superclass oc_V = Some oc_VoltageSource"
| "op_superclass oc_Vstep = Some oc_VoltageSource"
| "op_superclass oc_Vdc = Some oc_VoltageSource"
| "op_superclass oc_Vac = Some oc_VoltageSource"
| "op_superclass oc_v = Some oc_VoltageSource"
| "op_superclass oc_CurrentSource = Some oc_Norton"
| "op_superclass oc_sI = Some oc_CurrentSource"
| "op_superclass oc_I = Some oc_CurrentSource"
| "op_superclass oc_Istep = Some oc_CurrentSource"
| "op_superclass oc_Idc = Some oc_CurrentSource"
| "op_superclass oc_Iac = Some oc_CurrentSource"
| "op_superclass oc_i = Some oc_CurrentSource"
| "op_superclass oc_Xtal = Some oc_Thevenin"
| "op_superclass oc_FerriteBead = Some oc_Thevenin"

fun op_rank :: "opclass \<Rightarrow> nat" where
  "op_rank c = (case op_superclass c of None \<Rightarrow> 0
     | Some d \<Rightarrow> (case op_superclass d of None \<Rightarrow> 1
     | Some e \<Rightarrow> (case op_superclass e of None \<Rightarrow> 2
     | Some f \<Rightarrow> (case op_superclass f of None \<Rightarrow> 3 | Some g \<Rightarrow> 4))))"

lemma op_superclass_rank: "op_superclass c = Some d \<Longrightarrow> op_rank d < op_rank c"
  by (cases c) auto

function op_mro :: "opclass \<Rightarrow> opclass list" where
  "op_mro c = c # (case op_superclass c of None \<Rightarrow> [] | Some d \<Rightarrow> op_mro d)"
  by pat_completeness auto
termination
  by (relation "measure op_rank") (auto simp del: op_rank.simps simp: op_superclass_rank)

declare op_mro.simps [simp del]

definition op_issubclass :: "opclass \<Rightarrow> opclass \<Rightarrow> bool" where
  "op_issubclass c d = (d \<in> set (op_mro c))"

definition op_super :: "opclass \<Rightarrow> opclass \<Rightarrow> opclass eff" where
  "op_super c k =
     (if \<not> op_issubclass k c
      then raise (TypeError ''super(type, obj): obj must be an instance or subtype of type'')
      else (case dropWhile (\<lambda>d. d \<noteq> c) (op_mro k) of
              _ # d # _ \<Rightarrow> ret d
            | _ \<Rightarrow> raise (TypeError ''object.__init__() takes no arguments'')))"

subsection \<open>One-port objects\<close>

text \<open>
  A one-port object is written as the constructor call that built it. An inductor and a
  capacitor take an optional initial condition. \<open>V x\<close> and \<open>I x\<close> stand for the
  \<^verbatim>\<open>V\<close> and \<^verbatim>\<open>I\<close> object whose \<^verbatim>\<open>Voc\<close>, or \<^verbatim>\<open>Isc\<close>, is \<open>x\<close> (\<^verbatim>\<open>tsExpr\<close> of
  \<^verbatim>\<open>lcapy.core\<close> computes it from the argument). \<open>ParSer Par args\<close> is \<^verbatim>\<open>Par(*args)\<close>,
  \<open>ParSer Ser args\<close> is \<^verbatim>\<open>Ser(*args)\<close>. The classes \<^verbatim>\<open>sI\<close>, \<^verbatim>\<open>v\<close> and \<^verbatim>\<open>i\<close> have no
  object: their \<^verbatim>\<open>__init__\<close> calls the base \<^verbatim>\<open>__init__\<close> with the wrong arguments.
  \<open>FerriteBead Rs Rp Cp Lp\<close> is the object \<^verbatim>\<open>FerriteBead.__init__\<close> is written to leave.
\<close>

datatype pskind = Par | Ser

datatype 'a oneport =
    Thevenin 'a 'a
  | Norton 'a 'a
  | R 'a
  | G 'a
  | L 'a "'a option"
  | C 'a "'a option"
  | Y 'a
  | Z 'a
  | sV 'a
  | V 'a
  | Vstep 'a
  | Vdc 'a
  | Vac 'a 'a
  | I 'a
  | Istep 'a
  | Idc 'a
  | Iac 'a 'a
  | Xtal 'a 'a 'a 'a
  | FerriteBead 'a 'a 'a 'a
  | ParSer pskind "'a oneport list"

fun op_class_of :: "'a oneport \<Rightarrow> opclass" where
  "op_class_of (Thevenin Zval Vval) = oc_Thevenin"
| "op_class_of (Norton Yval Ival) = oc_Norton"
| "op_class_of (R Rval) = oc_R"
| "op_class_of (G Gval) = oc_G"
| "op_class_of (L Lval i0) = oc_L"
| "op_class_of (C Cval v0) = oc_C"
| "op_class_of (Y Yval) = oc_Y"
| "op_class_of (Z Zval) = oc_Z"
| "op_class_of (sV Vval) = oc_sV"
| "op_class_of (V Vval) = oc_V"
| "op_class_of (Vstep v0) = oc_Vstep"
| "op_class_of (Vdc v0) = oc_Vdc"
| "op_class_of (Vac v0 phi) = oc_Vac"
| "op_class_of (I Ival) = oc_I"
| "op_class_of (Istep i0) = oc_Istep"
| "op_class_of (Idc i0) = oc_Idc"
| "op_class_of (Iac i0 phi) = oc_Iac"
| "op_class_of (Xtal C0 R1 L1 C1) = oc_Xtal"
| "op_class_of (FerriteBead Rs Rp Cp Lp) = oc_FerriteBead"
| "op_class_of (ParSer Par args) = oc_Par"
| "op_class_of (ParSer Ser args) = oc_Ser"

definition op_isinstance :: "'a oneport \<Rightarrow> opclass \<Rightarrow> bool" where
  "op_isinstance X c = op_issubclass (op_class_of X) c"

text \<open>
  Two of the arguments, at two positions, are instances of the class \<open>c\<close>: the pairs that the
  loops of \<^verbatim>\<open>Par.__init__\<close> and \<^verbatim>\<open>Ser.__init__\<close> look for.
\<close>

definition two_of_class :: "opclass \<Rightarrow> 'a oneport list \<Rightarrow> bool" where
  "two_of_class c args =
     (\<exists>i j. i < j \<and> j < length args \<and> op_isinstance (args ! i) c \<and> op_isinstance (args ! j) c)"

text \<open>The attribute \<^verbatim>\<open>i0\<close> of an inductor, \<^verbatim>\<open>v0\<close> of a capacitor: 0 when not given.\<close>

fun ic :: "'a::field option \<Rightarrow> 'a" where
  "ic None = 0"
| "ic (Some x) = x"

subsection \<open>Construction of series and parallel combinations\<close>

text \<open>
  \<^verbatim>\<open>_check_oneport_args\<close> raises when an argument is not a \<^verbatim>\<open>OnePort\<close>; the arguments
  here are one-ports by their type. The operands formatted into the messages are left out.
\<close>

definition check_oneport_args :: "'a oneport list \<Rightarrow> unit eff" where
  "check_oneport_args args = ret ()"

fun Par_inner :: "'a oneport \<Rightarrow> 'a oneport list \<Rightarrow> unit eff" where
  "Par_inner arg1 [] = ret ()"
| "Par_inner arg1 (arg2 # rest) =
     (if op_isinstance arg1 oc_V \<and> op_isinstance arg2 oc_V
      then raise (ValueError ''Voltage sources connected in parallel'')
      else bind_eff (when_eff (op_isinstance arg1 oc_V \<or> op_isinstance arg2 oc_V)
                       (print ''Warn: parallel connection with voltage source''))
             (\<lambda>_. Par_inner arg1 rest))"

fun Par_outer :: "'a oneport list \<Rightarrow> unit eff" where
  "Par_outer [] = ret ()"
| "Par_outer (arg1 # rest) = bind_eff (Par_inner arg1 rest) (\<lambda>_. Par_outer rest)"

definition Par_init :: "'a oneport list \<Rightarrow> 'a oneport eff" where
  "Par_init args =
     bind_eff (check_oneport_args args) (\<lambda>_.
     bind_eff (Par_outer args) (\<lambda>_. ret (ParSer Par args)))"

fun Ser_inner :: "'a oneport \<Rightarrow> 'a oneport list \<Rightarrow> unit eff" where
  "Ser_inner arg1 [] = ret ()"
| "Ser_inner arg1 (arg2 # rest) =
     (if op_isinstance arg1 oc_I \<and> op_isinstance arg2 oc_I
      then raise (ValueError ''Current sources connected in series'')
      else bind_eff (when_eff (op_isinstance arg1 oc_I \<or> op_isinstance arg2 oc_I)
                       (print ''Warn: series connection with current source''))
             (\<lambda>_. Ser_inner arg1 rest))"

fun Ser_outer :: "'a oneport list \<Rightarrow> unit eff" where
  "Ser_outer [] = ret ()"
| "Ser_outer (arg1 # rest) = bind_eff (Ser_inner arg1 rest) (\<lambda>_. Ser_outer rest)"

definition Ser_init :: "'a oneport list \<Rightarrow> 'a oneport eff" where
  "Ser_init args =
     bind_eff (check_oneport_args args) (\<lambda>_.
     bind_eff (Ser_outer args) (\<lambda>_. ret (ParSer Ser args)))"

text \<open>\<^verbatim>\<open>self.__class__(*args)\<close> in a method of \<^verbatim>\<open>ParSer\<close>, and the operators \<^verbatim>\<open>+\<close>, \<^verbatim>\<open>|\<close>.\<close>

fun construct :: "pskind \<Rightarrow> 'a oneport list \<Rightarrow> 'a oneport eff" where
  "construct Par args = Par_init args"
| "construct Ser args = Ser_init args"

definition oneport_add :: "'a oneport \<Rightarrow> 'a oneport \<Rightarrow> 'a oneport eff" where
  "oneport_add X OP = Ser_init [X, OP]"

definition oneport_or :: "'a oneport \<Rightarrow> 'a oneport \<Rightarrow> 'a oneport eff" where
  "oneport_or X OP = Par_init [X, OP]"

subsection \<open>Compound components\<close>

text \<open>
  \<^verbatim>\<open>Xtal.expand\<close> is \<^verbatim>\<open>(R(R1) + L(L1) + C(C1)) | C(C0)\<close> and \<^verbatim>\<open>FerriteBead.expand\<close> is
  \<^verbatim>\<open>R(Rs) + (R(Rp) + L(Lp) + C(Cp))\<close>, built by the operators.
\<close>

definition Xtal_expand :: "'a \<Rightarrow> 'a \<Rightarrow> 'a \<Rightarrow> 'a \<Rightarrow> 'a oneport eff" where
  "Xtal_expand C0 R1 L1 C1 =
     bind_eff (oneport_add (R R1) (L L1 None)) (\<lambda>RL.
     bind_eff (oneport_add RL (C C1 None)) (\<lambda>RLC.
       oneport_or RLC (C C0 None)))"

definition FerriteBead_expand :: "'a \<Rightarrow> 'a \<Rightarrow> 'a \<Rightarrow> 'a \<Rightarrow> 'a oneport eff" where
  "FerriteBead_expand Rs Rp Cp Lp =
     bind_eff (oneport_add (R Rp) (L Lp None)) (\<lambda>RL.
     bind_eff (oneport_add RL (C Cp None)) (\<lambda>RLC.
       oneport_add (R Rs) RLC))"

text \<open>The networks these two return (\<open>Xtal_expand_network\<close>, \<open>FerriteBead_expand_network\<close> below).\<close>

definition Xtal_network :: "'a \<Rightarrow> 'a \<Rightarrow> 'a \<Rightarrow> 'a \<Rightarrow> 'a oneport" where
  "Xtal_network C0 R1 L1 C1 =
     ParSer Par [ParSer Ser [ParSer Ser [R R1, L L1 None], C C1 None], C C0 None]"

definition FerriteBead_network :: "'a \<Rightarrow> 'a \<Rightarrow> 'a \<Rightarrow> 'a \<Rightarrow> 'a oneport" where
  "FerriteBead_network Rs Rp Cp Lp =
     ParSer Ser [R Rs, ParSer Ser [ParSer Ser [R Rp, L Lp None], C Cp None]]"

text \<open>
  The \<^verbatim>\<open>__init__\<close> that \<^verbatim>\<open>super(...)\<close> has found, called with a \<open>Z\<close> and a \<open>V\<close>: only
  \<^verbatim>\<open>Thevenin.__init__\<close> takes them; it stores them and returns.
\<close>

definition thevenin_base_init :: "opclass \<Rightarrow> unit eff" where
  "thevenin_base_init c =
     (if c = oc_Thevenin then ret ()
      else raise (TypeError ''__init__() takes no such arguments''))"

text \<open>
  \<^verbatim>\<open>Xtal.__init__\<close> and \<^verbatim>\<open>FerriteBead.__init__\<close>: the attributes, \<^verbatim>\<open>N = self.expand()\<close>,
  then \<^verbatim>\<open>super(Xtal, self).__init__(N.Z, N.V)\<close> in both classes.
\<close>

definition Xtal_init :: "'a \<Rightarrow> 'a \<Rightarrow> 'a \<Rightarrow> 'a \<Rightarrow> 'a oneport eff" where
  "Xtal_init C0 R1 L1 C1 =
     bind_eff (Xtal_expand C0 R1 L1 C1) (\<lambda>N.
     bind_eff (op_super oc_Xtal oc_Xtal) (\<lambda>c.
     bind_eff (thevenin_base_init c) (\<lambda>_.
       ret (Xtal C0 R1 L1 C1))))"

definition FerriteBead_init :: "'a \<Rightarrow> 'a \<Rightarrow> 'a \<Rightarrow> 'a \<Rightarrow> 'a oneport eff" where
  "FerriteBead_init Rs Rp Cp Lp =
     bind_eff (FerriteBead_expand Rs Rp Cp Lp) (\<lambda>N.
     bind_eff (op_super oc_Xtal oc_FerriteBead) (\<lambda>c.
     bind_eff (thevenin_base_init c) (\<lambda>_.
       ret (FerriteBead Rs Rp Cp Lp))))"

subsection \<open>Impedance and admittance\<close>

text \<open>
  Modelled from the spec: \<^verbatim>\<open>Zs.R\<close>, \<^verbatim>\<open>Zs.L\<close>, \<^verbatim>\<open>Zs.C\<close> and \<^verbatim>\<open>Ys.G\<close> of \<^verbatim>\<open>lcapy.core\<close>
  (section 4.1: resistor \<open>Z = R\<close>, inductor \<open>Z = sL\<close>, capacitor \<open>Z = 1/(sC)\<close>, conductance
  the dual). \<open>s\<close> is the Laplace variable.
\<close>

definition Zs_R :: "'a \<Rightarrow> 'a" where
  "Zs_R Rval = Rval"

definition Zs_L :: "'a::times \<Rightarrow> 'a \<Rightarrow> 'a" where
  "Zs_L s Lval = s * Lval"

definition Zs_C :: "'a::{one, times, inverse} \<Rightarrow> 'a \<Rightarrow> 'a" where
  "Zs_C s Cval = 1 / (s * Cval)"

definition Ys_G :: "'a \<Rightarrow> 'a" where
  "Ys_G Gval = Gval"

text \<open>
  Modelled from the spec: \<^verbatim>\<open>Network.impedance\<close> of \<^verbatim>\<open>lcapy/network.py\<close>, which
  \<^verbatim>\<open>ParSer.Z\<close> returns, computed from the impedances \<open>zs\<close> of the children alone.
  Section 4.2 gives the impedance of a series combination as the sum of the impedances.
  For a parallel combination it gives the admittance only; the impedance is taken as the
  reciprocal of the sum of the reciprocals of the impedances, the parallel-resistor
  arithmetic \<open>R1 R2 / (R1 + R2)\<close> of that section.
\<close>

fun Network_impedance :: "pskind \<Rightarrow> 'a::{monoid_add, one, inverse} list \<Rightarrow> 'a" where
  "Network_impedance Ser zs = sum_list zs"
| "Network_impedance Par zs = 1 / sum_list (map (\<lambda>z. 1 / z) zs)"

text \<open>
  Modelled from the spec: \<^verbatim>\<open>Network.admittance\<close> of \<^verbatim>\<open>lcapy/network.py\<close>, which
  \<^verbatim>\<open>ParSer.Y\<close> returns, computed from the admittances \<open>ys\<close> of the children alone.
  Section 4.2 gives the admittance of a parallel combination as the sum of the
  admittances. For a series combination it gives the impedance only; the admittance is
  taken as the reciprocal of the sum of the reciprocals of the admittances, the
  series-conductance arithmetic \<open>G1 G2 / (G1 + G2)\<close> of that section.
\<close>

fun Network_admittance :: "pskind \<Rightarrow> 'a::{monoid_add, one, inverse} list \<Rightarrow> 'a" where
  "Network_admittance Ser ys = 1 / sum_list (map (\<lambda>y. 1 / y) ys)"
| "Network_admittance Par ys = sum_list ys"

fun weight :: "'a oneport \<Rightarrow> nat" where
  "weight (ParSer k args) = Suc (sum_list (map weight args))"
| "weight (Xtal C0 R1 L1 C1) = 8"
| "weight (FerriteBead Rs Rp Cp Lp) = 8"
| "weight X = 1"

fun norton_derived :: "'a oneport \<Rightarrow> bool" where
  "norton_derived (Norton Yval Ival) = True"
| "norton_derived (G Gval) = True"
| "norton_derived (Y Yval) = True"
| "norton_derived (I Ival) = True"
| "norton_derived (Istep i0) = True"
| "norton_derived (Idc i0) = True"
| "norton_derived (Iac i0 phi) = True"
| "norton_derived X = False"

lemma weight_member: "a \<in> set args \<Longrightarrow> weight a \<le> sum_list (map weight args)"
  by (induction args) auto

text \<open>
  \<^verbatim>\<open>Z\<close> and \<^verbatim>\<open>Y\<close> of a one-port. An object of a class derived from \<^verbatim>\<open>Thevenin\<close> holds
  the \<open>Z\<close> its \<^verbatim>\<open>__init__\<close> passed up, and \<^verbatim>\<open>Thevenin.Y\<close> is \<^verbatim>\<open>Ys(1 / self.Z)\<close>; an object
  of a class derived from \<^verbatim>\<open>Norton\<close> holds \<open>Y\<close>, and \<^verbatim>\<open>Norton.Z\<close> is \<^verbatim>\<open>Zs(1 / self.Y)\<close>.
  A voltage source passes \<^verbatim>\<open>Zs(0)\<close>, a current source \<^verbatim>\<open>Ys(0)\<close>; a crystal passes the
  impedance of its expansion. Over \<open>'a ext\<close> the admittance of a voltage source and the
  impedance of a current source are \<^verbatim>\<open>zoo\<close>, as in sympy.
\<close>

function Z_of :: "'a::{monoid_add, one, times, inverse} \<Rightarrow> 'a oneport \<Rightarrow> 'a"
  and Y_of :: "'a::{monoid_add, one, times, inverse} \<Rightarrow> 'a oneport \<Rightarrow> 'a" where
  "Z_of s (Thevenin Zval Vval) = Zval"
| "Z_of s (R Rval) = Zs_R Rval"
| "Z_of s (L Lval i0) = Zs_L s Lval"
| "Z_of s (C Cval v0) = Zs_C s Cval"
| "Z_of s (Z Zval) = Zval"
| "Z_of s (sV Vval) = 0"
| "Z_of s (V Vval) = 0"
| "Z_of s (Vstep v0) = 0"
| "Z_of s (Vdc v0) = 0"
| "Z_of s (Vac v0 phi) = 0"
| "Z_of s (Xtal C0 R1 L1 C1) = Z_of s (Xtal_network C0 R1 L1 C1)"
| "Z_of s (FerriteBead Rs Rp Cp Lp) = Z_of s (FerriteBead_network Rs Rp Cp Lp)"
| "Z_of s (Norton Yval Ival) = 1 / Y_of s (Norton Yval Ival)"
| "Z_of s (G Gval) = 1 / Y_of s (G Gval)"
| "Z_of s (Y Yval) = 1 / Y_of s (Y Yval)"
| "Z_of s (I Ival) = 1 / Y_of s (I Ival)"
| "Z_of s (Istep i0) = 1 / Y_of s (Istep i0)"
| "Z_of s (Idc i0) = 1 / Y_of s (Idc i0)"
| "Z_of s (Iac i0 phi) = 1 / Y_of s (Iac i0 phi)"
| "Z_of s (ParSer k args) = Network_impedance k (map (Z_of s) args)"
| "Y_of s (Thevenin Zval Vval) = 1 / Z_of s (Thevenin Zval Vval)"
| "Y_of s (R Rval) = 1 / Z_of s (R Rval)"
| "Y_of s (L Lval i0) = 1 / Z_of s (L Lval i0)"
| "Y_of s (C Cval v0) = 1 / Z_of s (C Cval v0)"
| "Y_of s (Z Zval) = 1 / Z_of s (Z Zval)"
| "Y_of s (sV Vval) = 1 / Z_of s (sV Vval)"
| "Y_of s (V Vval) = 1 / Z_of s (V Vval)"
| "Y_of s (Vstep v0) = 1 / Z_of s (Vstep v0)"
| "Y_of s (Vdc v0) = 1 / Z_of s (Vdc v0)"
| "Y_of s (Vac v0 phi) = 1 / Z_of s (Vac v0 phi)"
| "Y_of s (Xtal C0 R1 L1 C1) = 1 / Z_of s (Xtal C0 R1 L1 C1)"
| "Y_of s (FerriteBead Rs Rp Cp Lp) = 1 / Z_of s (FerriteBead Rs Rp Cp Lp)"
| "Y_of s (Norton Yval Ival) = Yval"
| "Y_of s (G Gval) = Ys_G Gval"
| "Y_of s (Y Yval) = Yval"
| "Y_of s (I Ival) = 0"
| "Y_of s (Istep i0) = 0"
| "Y_of s (Idc i0) = 0"
| "Y_of s (Iac i0 phi) = 0"
| "Y_of s (ParSer k args) = Network_admittance k (map (Y_of s) args)"
  by pat_completeness auto
termination
  by (relation "measure (\<lambda>x. case x of
          Inl (s, X) \<Rightarrow> 2 * weight X + (if norton_derived X then 1 else 0)
        | Inr (s, X) \<Rightarrow> 2 * weight X + (if norton_derived X then 0 else 1))")
     (auto simp: Xtal_network_def FerriteBead_network_def dest: weight_member)

subsection \<open>Simplification of series and parallel combinations\<close>

text \<open>
  \<^verbatim>\<open>ParSer._combine\<close>, for \<^verbatim>\<open>self\<close> of class \<open>k\<close>. \<^verbatim>\<open>V(arg1 + arg2)\<close> and
  \<^verbatim>\<open>I(arg1 + arg2)\<close> pass a series network to \<^verbatim>\<open>tsExpr\<close> of \<^verbatim>\<open>lcapy.core\<close>: the parameter
  \<open>tsExpr\<close> stands for it. The first part is the case of two classes that differ.
\<close>

definition combine_differ ::
  "pskind \<Rightarrow> 'a::field oneport \<Rightarrow> 'a oneport \<Rightarrow> 'a oneport option" where
  "combine_differ k arg1 arg2 =
     (if k = Ser \<and> (case arg1 of V Voc \<Rightarrow> Voc = 0 | _ \<Rightarrow> False) then Some arg2
      else if k = Ser \<and> (case arg2 of V Voc \<Rightarrow> Voc = 0 | _ \<Rightarrow> False) then Some arg1
      else if k = Ser \<and> (case arg1 of Z Zval \<Rightarrow> Zval = 0 | _ \<Rightarrow> False) then Some arg2
      else if k = Ser \<and> (case arg2 of Z Zval \<Rightarrow> Zval = 0 | _ \<Rightarrow> False) then Some arg1
      else if k = Par \<and> (case arg1 of I Isc \<Rightarrow> Isc = 0 | _ \<Rightarrow> False) then Some arg2
      else if k = Par \<and> (case arg2 of I Isc \<Rightarrow> Isc = 0 | _ \<Rightarrow> False) then Some arg1
      else if k = Par \<and> (case arg1 of Y Yval \<Rightarrow> Yval = 0 | _ \<Rightarrow> False) then Some arg2
      else if k = Par \<and> (case arg2 of Y Yval \<Rightarrow> Yval = 0 | _ \<Rightarrow> False) then Some arg1
      else None)"

definition combine_Ser ::
  "('a oneport \<Rightarrow> 'a eff) \<Rightarrow> 'a::field oneport \<Rightarrow> 'a oneport \<Rightarrow> 'a oneport option eff" where
  "combine_Ser tsExpr arg1 arg2 =
     (case arg1 of
        I Isc \<Rightarrow> ret None
      | Vdc v1 \<Rightarrow> (case arg2 of Vdc v2 \<Rightarrow> ret (Some (Vdc (v1 + v2))) | _ \<Rightarrow> ret None)
      | V Voc \<Rightarrow>
          bind_eff (oneport_add arg1 arg2) (\<lambda>N.
          bind_eff (tsExpr N) (\<lambda>x. ret (Some (V x))))
      | R R1 \<Rightarrow> (case arg2 of R R2 \<Rightarrow> ret (Some (R (R1 + R2))) | _ \<Rightarrow> ret None)
      | L L1 i1 \<Rightarrow>
          (case arg2 of
             L L2 i2 \<Rightarrow>
               if ic i1 \<noteq> ic i2
               then raise (ValueError ''Series inductors with different initial currents!'')
               else ret (Some (L (L1 + L2) (Some (ic i1))))
           | _ \<Rightarrow> ret None)
      | G G1 \<Rightarrow> (case arg2 of G G2 \<Rightarrow> ret (Some (G (G1 * G2 / (G1 + G2)))) | _ \<Rightarrow> ret None)
      | C C1 v1 \<Rightarrow>
          (case arg2 of
             C C2 v2 \<Rightarrow> ret (Some (C (C1 * C2 / (C1 + C2)) (Some (ic v1 + ic v2))))
           | _ \<Rightarrow> ret None)
      | _ \<Rightarrow> ret None)"

definition combine_Par ::
  "('a oneport \<Rightarrow> 'a eff) \<Rightarrow> 'a::field oneport \<Rightarrow> 'a oneport \<Rightarrow> 'a oneport option eff" where
  "combine_Par tsExpr arg1 arg2 =
     (case arg1 of
        V Voc \<Rightarrow> ret None
      | Idc i1 \<Rightarrow> (case arg2 of Idc i2 \<Rightarrow> ret (Some (Idc (i1 + i2))) | _ \<Rightarrow> ret None)
      | I Isc \<Rightarrow>
          bind_eff (oneport_add arg1 arg2) (\<lambda>N.
          bind_eff (tsExpr N) (\<lambda>x. ret (Some (I x))))
      | G G1 \<Rightarrow> (case arg2 of G G2 \<Rightarrow> ret (Some (G (G1 + G2))) | _ \<Rightarrow> ret None)
      | C C1 v1 \<Rightarrow>
          (case arg2 of
             C C2 v2 \<Rightarrow>
               if ic v1 \<noteq> ic v2
               then raise (ValueError ''Parallel capacitors with different initial voltages!'')
               else ret (Some (C (C1 + C2) (Some (ic v1))))
           | _ \<Rightarrow> ret None)
      | R R1 \<Rightarrow> (case arg2 of R R2 \<Rightarrow> ret (Some (R (R1 * R2 / (R1 + R2)))) | _ \<Rightarrow> ret None)
      | L L1 i1 \<Rightarrow>
          (case arg2 of
             L L2 i2 \<Rightarrow> ret (Some (L (L1 * L2 / (L1 + L2)) (Some (ic i1 + ic i2))))
           | _ \<Rightarrow> ret None)
      | _ \<Rightarrow> ret None)"

definition combine ::
  "('a oneport \<Rightarrow> 'a eff) \<Rightarrow> pskind \<Rightarrow> 'a::field oneport \<Rightarrow> 'a oneport
     \<Rightarrow> 'a oneport option eff" where
  "combine tsExpr k arg1 arg2 =
     (if op_class_of arg1 \<noteq> op_class_of arg2 then ret (combine_differ k arg1 arg2)
      else (case k of
              Ser \<Rightarrow> combine_Ser tsExpr arg1 arg2
            | Par \<Rightarrow> combine_Par tsExpr arg1 arg2))"

text \<open>
  The second loop of \<^verbatim>\<open>ParSer.simplify\<close>: \<open>args\<close> is the list it mutates (\<open>None\<close> for an
  element that was combined into an earlier one), \<open>ms\<close> the indices still to visit.
\<close>

fun scan_inner ::
  "('a oneport \<Rightarrow> 'a eff) \<Rightarrow> pskind \<Rightarrow> nat list
     \<Rightarrow> 'a::field oneport option list \<times> 'a oneport \<times> bool
     \<Rightarrow> ('a oneport option list \<times> 'a oneport \<times> bool) eff" where
  "scan_inner tsExpr k [] st = ret st"
| "scan_inner tsExpr k (m # ms) (args, arg1, new) =
     (case args ! m of
        None \<Rightarrow> scan_inner tsExpr k ms (args, arg1, new)
      | Some arg2 \<Rightarrow>
          if op_isinstance arg2 oc_ParSer then scan_inner tsExpr k ms (args, arg1, new)
          else bind_eff (combine tsExpr k arg1 arg2) (\<lambda>newarg.
                 case newarg of
                   None \<Rightarrow> scan_inner tsExpr k ms (args, arg1, new)
                 | Some a \<Rightarrow> scan_inner tsExpr k ms (args[m := None], a, True)))"

fun scan_outer ::
  "('a oneport \<Rightarrow> 'a eff) \<Rightarrow> pskind \<Rightarrow> nat list
     \<Rightarrow> 'a::field oneport option list \<times> bool
     \<Rightarrow> ('a oneport option list \<times> bool) eff" where
  "scan_outer tsExpr k [] st = ret st"
| "scan_outer tsExpr k (n # ns) (args, new) =
     (case args ! n of
        None \<Rightarrow> scan_outer tsExpr k ns (args, new)
      | Some arg1 \<Rightarrow>
          if op_isinstance arg1 oc_ParSer then scan_outer tsExpr k ns (args, new)
          else bind_eff (scan_inner tsExpr k [n + 1 ..< length args] (args, arg1, new))
                 (\<lambda>(args', arg1', new'). scan_outer tsExpr k ns (args'[n := Some arg1'], new')))"

definition simplify_scan ::
  "('a oneport \<Rightarrow> 'a eff) \<Rightarrow> pskind \<Rightarrow> 'a::field oneport list \<Rightarrow> 'a oneport eff" where
  "simplify_scan tsExpr k args =
     bind_eff (scan_outer tsExpr k [0 ..< length args] (map Some args, False))
       (\<lambda>(args', new).
          if new then
            (let args'' = concat (map (\<lambda>arg. case arg of None \<Rightarrow> [] | Some a \<Rightarrow> [a]) args')
             in if length args'' = 1 then ret (args'' ! 0) else construct k args'')
          else ret (ParSer k args))"

text \<open>
  \<^verbatim>\<open>ParSer.simplify\<close> on \<^verbatim>\<open>self\<close> of class \<open>k\<close> with arguments \<open>args\<close>; \<open>simplify_args\<close>
  is its first loop, carrying \<^verbatim>\<open>new\<close> and \<^verbatim>\<open>newargs\<close>.
\<close>

function simplify ::
    "('a oneport \<Rightarrow> 'a eff) \<Rightarrow> pskind \<Rightarrow> 'a::field oneport list \<Rightarrow> bool \<Rightarrow> 'a oneport eff"
  and simplify_args ::
    "('a oneport \<Rightarrow> 'a eff) \<Rightarrow> pskind \<Rightarrow> bool \<Rightarrow> 'a::field oneport list
       \<Rightarrow> bool \<times> 'a oneport list \<Rightarrow> (bool \<times> 'a oneport list) eff" where
  "simplify tsExpr k args deep =
     bind_eff (simplify_args tsExpr k deep args (False, [])) (\<lambda>(new, newargs).
     bind_eff (if new then construct k newargs else ret (ParSer k args)) (\<lambda>self.
       case self of
         ParSer k' args' \<Rightarrow> simplify_scan tsExpr k' args'
       | _ \<Rightarrow> ret self))"
| "simplify_args tsExpr k deep [] acc = ret acc"
| "simplify_args tsExpr k deep (arg # rest) (new, newargs) =
     (case arg of
        ParSer k' args' \<Rightarrow>
          bind_eff (simplify tsExpr k' args' deep) (\<lambda>arg'.
            simplify_args tsExpr k deep rest
              (True,
               case arg' of
                 ParSer k'' args'' \<Rightarrow> if k'' = k then newargs @ args'' else newargs @ [arg']
               | _ \<Rightarrow> newargs @ [arg']))
      | _ \<Rightarrow> simplify_args tsExpr k deep rest (new, newargs @ [arg]))"
  by pat_completeness auto
termination
  by (relation "measure (\<lambda>x. case x of
          Inl (tsExpr, k, args, deep) \<Rightarrow> 2 * sum_list (map weight args) + 1
        | Inr (tsExpr, k, deep, args, acc) \<Rightarrow> 2 * sum_list (map weight args))")
     auto

section \<open>Computations: basic facts\<close>

lemma ret_bind [simp]: "bind_eff (ret x) f = f x"
  by (cases "f x") (simp add: bind_eff_def ret_def)

lemma raise_bind [simp]: "bind_eff (raise e) f = raise e"
  by (simp add: bind_eff_def raise_def)

lemma when_False [simp]: "when_eff False m = ret ()"
  by (simp add: when_eff_def)

lemma when_True [simp]: "when_eff True m = m"
  by (simp add: when_eff_def)

lemma warn_bind_ret [simp]: "bind_eff (warn msg) (\<lambda>_. ret x) = ([Warned msg], Inr x)"
  by (simp add: bind_eff_def warn_def ret_def)

lemma ret_eq_iff [simp]: "(ret x = ret y) = (x = y)"
  by (simp add: ret_def)

lemma ret_neq_raise [simp]: "ret x \<noteq> raise e" "raise e \<noteq> ret x"
  by (simp_all add: ret_def raise_def)

lemma snd_bind: "snd (bind_eff m f) = (case snd m of Inl e \<Rightarrow> Inl e | Inr x \<Rightarrow> snd (f x))"
  by (cases m) (auto simp: bind_eff_def split: sum.splits prod.splits)

lemma fst_bind:
  "fst (bind_eff m f) = (case snd m of Inl e \<Rightarrow> fst m | Inr x \<Rightarrow> fst m @ fst (f x))"
  by (cases m) (auto simp: bind_eff_def split: sum.splits prod.splits)

lemma snd_ret [simp]: "snd (ret x) = Inr x" and fst_ret [simp]: "fst (ret x) = []"
  by (simp_all add: ret_def)

lemma snd_raise [simp]: "snd (raise e) = Inl e" and fst_raise [simp]: "fst (raise e) = []"
  by (simp_all add: raise_def)

lemma snd_print [simp]: "snd (print msg) = Inr ()"
  and fst_print [simp]: "fst (print msg) = [Printed msg]"
  by (simp_all add: print_def)

lemma snd_when_print [simp]: "snd (when_eff b (print msg)) = Inr ()"
  by (simp add: when_eff_def print_def ret_def)

lemma fst_when_print [simp]: "fst (when_eff b (print msg)) = (if b then [Printed msg] else [])"
  by (simp add: when_eff_def print_def ret_def)

text \<open>A computation whose continuation always raises raises.\<close>

lemma bind_fails:
  assumes "\<And>x. \<exists>w e. f x = (w, Inl e)"
  shows "\<exists>w e. bind_eff m f = (w, Inl e)"
proof (cases m)
  case (Pair w r)
  show ?thesis
  proof (cases r)
    case (Inl e)
    with Pair show ?thesis
      by (simp add: bind_eff_def)
  next
    case (Inr x)
    obtain w' e' where "f x = (w', Inl e')"
      using assms by blast
    with Pair Inr show ?thesis
      by (simp add: bind_eff_def)
  qed
qed

section \<open>Two-port matrices and combinators\<close>

subsection \<open>Resolution orders and \<^verbatim>\<open>super\<close>\<close>

lemma mro_Chain: "mro cls_Chain = [cls_Chain, cls_TwoPortBModel, cls_TwoPort, cls_Network]"
  by (simp add: mro.simps)

lemma mro_Par2: "mro cls_Par2 = [cls_Par2, cls_TwoPortYModel, cls_TwoPort, cls_Network]"
  by (simp add: mro.simps)

lemma mro_InverseHybrid2:
  "mro cls_InverseHybrid2 = [cls_InverseHybrid2, cls_TwoPortGModel, cls_TwoPort, cls_Network]"
  by (simp add: mro.simps)

lemma super_Chain: "py_super cls_Chain cls_Chain = ret cls_TwoPortBModel"
  by (simp add: py_super_def issubclass_def mro_Chain)

lemma super_Par2: "py_super cls_Par2 cls_Par2 = ret cls_TwoPortYModel"
  by (simp add: py_super_def issubclass_def mro_Par2)

lemma super_InverseHybrid2:
  "py_super cls_Hybrid2 cls_InverseHybrid2 =
     raise (TypeError ''super(type, obj): obj must be an instance or subtype of type'')"
  by (simp add: py_super_def issubclass_def mro_InverseHybrid2)

lemma isinstance_Series_Shunt [simp]:
  "isinstance (Series z v) cls_Shunt = False" "isinstance (Shunt y i) cls_Shunt = True"
  by (simp_all add: isinstance_def issubclass_def Series_def Shunt_def mro.simps)

subsection \<open>The cascade\<close>

lemma Chain_init_pair:
  "Chain_init [T1, T2] =
     ret (TwoPortBModel cls_Chain (mat_mul (tp_B T2) (tp_B T1))
            (fst (vec_add (tp_V2b T2, tp_I2b T2) (mat_vec (tp_B T2) (tp_V2b T1, tp_I2b T1))))
            (snd (vec_add (tp_V2b T2, tp_I2b T2) (mat_vec (tp_B T2) (tp_V2b T1, tp_I2b T1)))))"
  by (simp add: Chain_init_def check_twoport_args_def super_Chain model_init_def)

text \<open>
  C1. \<^verbatim>\<open>Chain(T1, T2)\<close> returns, without output, a two-port whose \<^verbatim>\<open>B\<close> is the product
  \<^verbatim>\<open>T2.B * T1.B\<close>: the matrix of the second, downstream argument stands on the left (an
  inverse chain matrix maps the input pair to the output pair; \<^verbatim>\<open>BMatrix.chain\<close> notes the
  reverse order compared to \<^verbatim>\<open>AMatrix\<close>).
\<close>

theorem Chain_B_product:
  "bind_eff (Chain_init [T1, T2]) (\<lambda>T. ret (tp_B T)) = ret (mat_mul (tp_B T2) (tp_B T1))"
  by (simp add: Chain_init_pair)

text \<open>
  The product in the order \<^verbatim>\<open>T1.B * T2.B\<close> is not what \<^verbatim>\<open>Chain\<close> stores: for
  \<^verbatim>\<open>Chain(Series(R(1)), Shunt(R(1)))\<close> the two products differ.
\<close>

theorem Chain_B_order_counterexample:
  "bind_eff (Chain_init [Series 1 0, Shunt 1 0]) (\<lambda>T. ret (tp_B T))
     = ret (Mat 1 (- 1) (- 1) (2::rat))
   \<and> mat_mul (tp_B (Series 1 0)) (tp_B (Shunt 1 0)) = Mat 2 (- 1) (- 1) (1::rat)
   \<and> bind_eff (Chain_init [Series 1 0, Shunt 1 0]) (\<lambda>T. ret (tp_B T))
       \<noteq> ret (mat_mul (tp_B (Series 1 0)) (tp_B (Shunt 1 (0::rat))))"
  by (simp add: Chain_init_pair Series_def Shunt_def BMatrix_Zseries_def BMatrix_Yshunt_def
        mat_mul_def)

subsection \<open>Chain and inverse chain matrix\<close>

lemma det_AMatrix_B:
  fixes A :: "'a::field mat"
  assumes "det A \<noteq> 0"
  shows "det (Mat (m22 A / det A) (- m12 A / det A) (- m21 A / det A) (m11 A / det A))
         = 1 / det A"
proof -
  have "m22 A / det A * (m11 A / det A) - (- m12 A / det A) * (- m21 A / det A)
        = (m11 A * m22 A - m12 A * m21 A) / (det A * det A)"
    using assms by (simp add: field_simps)
  also have "\<dots> = 1 / det A"
    using assms by (simp add: det_def)
  finally show ?thesis
    by (simp add: det_def)
qed

text \<open>
  C2. For a chain matrix \<open>A\<close> whose determinant is not the zero expression,
  \<^verbatim>\<open>A.B\<close> returns without a warning and \<^verbatim>\<open>A.B.A\<close> is \<open>A\<close> again: the round trip
  through the inverse chain representation is the identity.
\<close>

theorem AMatrix_B_A_roundtrip:
  fixes A :: "'a::field mat"
  assumes "det A \<noteq> 0"
  shows "bind_eff (AMatrix_B A) (\<lambda>B. ret (BMatrix_A B)) = ret A"
proof -
  let ?B = "Mat (m22 A / det A) (- m12 A / det A) (- m21 A / det A) (m11 A / det A)"
  have B: "AMatrix_B A = ret ?B"
    using assms by (simp add: AMatrix_B_def Let_def)
  have d: "det ?B = 1 / det A"
    using assms by (rule det_AMatrix_B)
  have "BMatrix_A ?B = Mat (m11 A) (m12 A) (m21 A) (m22 A)"
    unfolding BMatrix_A_def Let_def d using assms by simp
  then have "BMatrix_A ?B = A"
    by simp
  with B show ?thesis
    by simp
qed

text \<open>The round trip of C2 on the chain matrix with rows \<open>(1, 2)\<close> and \<open>(3, 4)\<close>.\<close>

theorem AMatrix_B_A_roundtrip_witness:
  "det (Mat 1 2 3 (4::rat)) \<noteq> 0 \<and>
   bind_eff (AMatrix_B (Mat 1 2 3 (4::rat))) (\<lambda>B. ret (BMatrix_A B)) = ret (Mat 1 2 3 4)"
proof -
  have h: "det (Mat 1 2 3 (4::rat)) \<noteq> 0"
    by (simp add: det_def)
  show ?thesis
    using h AMatrix_B_A_roundtrip [OF h] by simp
qed

section \<open>One-ports\<close>

subsection \<open>Classes of the objects\<close>

lemma op_mro_eval:
  "op_mro oc_Thevenin = [oc_Thevenin, oc_OnePort, oc_Network]"
  "op_mro oc_Norton = [oc_Norton, oc_OnePort, oc_Network]"
  "op_mro oc_R = [oc_R, oc_Thevenin, oc_OnePort, oc_Network]"
  "op_mro oc_G = [oc_G, oc_Norton, oc_OnePort, oc_Network]"
  "op_mro oc_L = [oc_L, oc_Thevenin, oc_OnePort, oc_Network]"
  "op_mro oc_C = [oc_C, oc_Thevenin, oc_OnePort, oc_Network]"
  "op_mro oc_Y = [oc_Y, oc_Norton, oc_OnePort, oc_Network]"
  "op_mro oc_Z = [oc_Z, oc_Thevenin, oc_OnePort, oc_Network]"
  "op_mro oc_sV = [oc_sV, oc_VoltageSource, oc_Thevenin, oc_OnePort, oc_Network]"
  "op_mro oc_V = [oc_V, oc_VoltageSource, oc_Thevenin, oc_OnePort, oc_Network]"
  "op_mro oc_Vstep = [oc_Vstep, oc_VoltageSource, oc_Thevenin, oc_OnePort, oc_Network]"
  "op_mro oc_Vdc = [oc_Vdc, oc_VoltageSource, oc_Thevenin, oc_OnePort, oc_Network]"
  "op_mro oc_Vac = [oc_Vac, oc_VoltageSource, oc_Thevenin, oc_OnePort, oc_Network]"
  "op_mro oc_I = [oc_I, oc_CurrentSource, oc_Norton, oc_OnePort, oc_Network]"
  "op_mro oc_Istep = [oc_Istep, oc_CurrentSource, oc_Norton, oc_OnePort, oc_Network]"
  "op_mro oc_Idc = [oc_Idc, oc_CurrentSource, oc_Norton, oc_OnePort, oc_Network]"
  "op_mro oc_Iac = [oc_Iac, oc_CurrentSource, oc_Norton, oc_OnePort, oc_Network]"
  "op_mro oc_Xtal = [oc_Xtal, oc_Thevenin, oc_OnePort, oc_Network]"
  "op_mro oc_FerriteBead = [oc_FerriteBead, oc_Thevenin, oc_OnePort, oc_Network]"
  "op_mro oc_Par = [oc_Par, oc_ParSer, oc_OnePort, oc_Network]"
  "op_mro oc_Ser = [oc_Ser, oc_ParSer, oc_OnePort, oc_Network]"
  by (simp_all add: op_mro.simps)

text \<open>
  \<^verbatim>\<open>isinstance(X, V)\<close> holds of the objects of class \<^verbatim>\<open>V\<close> only: \<^verbatim>\<open>Vdc\<close>, \<^verbatim>\<open>Vstep\<close>,
  \<^verbatim>\<open>Vac\<close> and \<^verbatim>\<open>sV\<close> derive from \<^verbatim>\<open>VoltageSource\<close>, not from \<^verbatim>\<open>V\<close>. Likewise for \<^verbatim>\<open>I\<close>.
\<close>

lemma isinstance_V_iff: "op_isinstance X oc_V = (\<exists>x. X = V x)"
  by (cases X rule: op_class_of.cases)
     (simp_all add: op_isinstance_def op_issubclass_def op_mro_eval)

lemma isinstance_I_iff: "op_isinstance X oc_I = (\<exists>x. X = I x)"
  by (cases X rule: op_class_of.cases)
     (simp_all add: op_isinstance_def op_issubclass_def op_mro_eval)

lemma isinstance_ParSer_iff: "op_isinstance X oc_ParSer = (\<exists>k args. X = ParSer k args)"
  by (cases X rule: op_class_of.cases)
     (simp_all add: op_isinstance_def op_issubclass_def op_mro_eval)

lemma two_of_class_Nil [simp]: "two_of_class c [] = False"
  by (simp add: two_of_class_def)

lemma two_of_class_Cons:
  "two_of_class c (a # rest) =
     ((op_isinstance a c \<and> (\<exists>b\<in>set rest. op_isinstance b c)) \<or> two_of_class c rest)"
  (is "?lhs = ?rhs")
proof
  assume ?lhs
  then obtain i j where ij: "i < j" "j < length (a # rest)"
      "op_isinstance ((a # rest) ! i) c" "op_isinstance ((a # rest) ! j) c"
    unfolding two_of_class_def by blast
  from ij obtain j' where j': "j = Suc j'" by (cases j) auto
  show ?rhs
  proof (cases i)
    case 0
    with ij j' have "op_isinstance a c" "j' < length rest" "op_isinstance (rest ! j') c" by auto
    moreover from this have "rest ! j' \<in> set rest" by simp
    ultimately show ?thesis by blast
  next
    case (Suc i')
    with ij j' have "i' < j'" "j' < length rest" "op_isinstance (rest ! i') c"
        "op_isinstance (rest ! j') c" by auto
    then have "two_of_class c rest" unfolding two_of_class_def by blast
    then show ?thesis by simp
  qed
next
  assume ?rhs
  then show ?lhs
  proof
    assume "op_isinstance a c \<and> (\<exists>b\<in>set rest. op_isinstance b c)"
    then obtain j' where "op_isinstance a c" "j' < length rest" "op_isinstance (rest ! j') c"
      by (auto simp: in_set_conv_nth)
    then have "0 < Suc j' \<and> Suc j' < length (a # rest) \<and> op_isinstance ((a # rest) ! 0) c
        \<and> op_isinstance ((a # rest) ! Suc j') c"
      by simp
    then show ?lhs unfolding two_of_class_def by blast
  next
    assume "two_of_class c rest"
    then obtain i j where "i < j" "j < length rest" "op_isinstance (rest ! i) c"
        "op_isinstance (rest ! j) c"
      unfolding two_of_class_def by blast
    then have "Suc i < Suc j \<and> Suc j < length (a # rest) \<and> op_isinstance ((a # rest) ! Suc i) c
        \<and> op_isinstance ((a # rest) ! Suc j) c"
      by simp
    then show ?lhs unfolding two_of_class_def by blast
  qed
qed

subsection \<open>Thevenin and Norton views\<close>

lemma ext_reciprocal_involution: "1 / (1 / x) = (x::'a::field ext)"
  by (cases x) (simp_all add: divide_ext_def one_ext_def)

lemma ext_one_over_zero: "1 / (0::'a::field ext) = Zoo"
  and ext_one_over_Zoo: "1 / (Zoo::'a::field ext) = 0"
  by (simp_all add: divide_ext_def one_ext_def zero_ext_def)

text \<open>
  The admittance of a voltage source and the impedance of a current source are \<^verbatim>\<open>zoo\<close>.
\<close>

lemma sources_zoo:
  "Y_of s (V a) = (Zoo::'a::field ext)" "Z_of s (I a) = (Zoo::'a::field ext)"
  by (simp_all add: ext_one_over_zero)

lemma map_reciprocal:
  fixes f g :: "'b \<Rightarrow> 'a::{one, inverse}"
  assumes "\<And>a. a \<in> set xs \<Longrightarrow> 1 / f a = g a"
  shows "map (\<lambda>z. 1 / z) (map f xs) = map g xs"
  using assms by (induction xs) auto

text \<open>
  Both views are reciprocal, by induction on the network: for a combination the
  reciprocals of the children's impedances are their admittances, and conversely.
\<close>

lemma Z_Y_both:
  fixes s :: "'a::field ext"
  shows "Y_of s X = 1 / Z_of s X \<and> Z_of s X = 1 / Y_of s X"
proof (induction X)
  case (ParSer k args)
  have y: "1 / Z_of s a = Y_of s a" if "a \<in> set args" for a
  proof -
    from ParSer.IH [OF that] have "Y_of s a = 1 / Z_of s a"
      by (rule conjunct1)
    then show ?thesis
      by (rule sym)
  qed
  have z: "1 / Y_of s a = Z_of s a" if "a \<in> set args" for a
  proof -
    from ParSer.IH [OF that] have "Z_of s a = 1 / Y_of s a"
      by (rule conjunct2)
    then show ?thesis
      by (rule sym)
  qed
  have zs: "map (\<lambda>z. 1 / z) (map (Z_of s) args) = map (Y_of s) args"
    using y by (rule map_reciprocal)
  have ys: "map (\<lambda>y. 1 / y) (map (Y_of s) args) = map (Z_of s) args"
    using z by (rule map_reciprocal)
  show ?case
  proof (cases k)
    case Par
    have Zp: "Z_of s (ParSer Par args) = 1 / sum_list (map (Y_of s) args)"
      by (simp only: Z_of.simps Network_impedance.simps zs)
    have Yp: "Y_of s (ParSer Par args) = sum_list (map (Y_of s) args)"
      by (simp only: Y_of.simps Network_admittance.simps)
    show ?thesis
      unfolding Par Zp Yp by (simp only: ext_reciprocal_involution)
  next
    case Ser
    have Zp: "Z_of s (ParSer Ser args) = sum_list (map (Z_of s) args)"
      by (simp only: Z_of.simps Network_impedance.simps)
    have Yp: "Y_of s (ParSer Ser args) = 1 / sum_list (map (Z_of s) args)"
      by (simp only: Y_of.simps Network_admittance.simps ys)
    show ?thesis
      unfolding Ser Zp Yp by (simp only: ext_reciprocal_involution)
  qed
qed (simp_all add: ext_reciprocal_involution)

text \<open>
  C3. For every one-port \<open>X\<close>, over the expressions with \<^verbatim>\<open>zoo\<close> and \<^verbatim>\<open>nan\<close>: when
  \<^verbatim>\<open>X.Z\<close> is not the zero expression, \<^verbatim>\<open>X.Y\<close> is \<^verbatim>\<open>1 / X.Z\<close>; when \<^verbatim>\<open>X.Y\<close> is not
  the zero expression, \<^verbatim>\<open>X.Z\<close> is \<^verbatim>\<open>1 / X.Y\<close>.
\<close>

theorem Z_Y_reciprocal:
  fixes s :: "'a::field ext"
  shows "(Z_of s X \<noteq> 0 \<longrightarrow> Y_of s X = 1 / Z_of s X)
       \<and> (Y_of s X \<noteq> 0 \<longrightarrow> Z_of s X = 1 / Y_of s X)"
  using Z_Y_both [of s X] by blast

text \<open>
  C3 on the resistor \<^verbatim>\<open>R(10)\<close>, and on a voltage source of class \<^verbatim>\<open>V\<close>, whose admittance
  is \<^verbatim>\<open>zoo\<close>, not zero, and whose impedance \<open>0\<close> is \<^verbatim>\<open>1 / zoo\<close>.
\<close>

theorem Z_Y_reciprocal_witness:
  "Z_of (Fin (2::rat)) (R (Fin 10)) \<noteq> 0
   \<and> Y_of (Fin (2::rat)) (R (Fin 10)) = 1 / Z_of (Fin 2) (R (Fin 10))
   \<and> Y_of (Fin (2::rat)) (V (Fin 5)) = Zoo
   \<and> Y_of (Fin (2::rat)) (V (Fin 5)) \<noteq> 0
   \<and> Z_of (Fin (2::rat)) (V (Fin 5)) = 1 / Y_of (Fin 2) (V (Fin 5))"
proof -
  have h1: "Z_of (Fin (2::rat)) (R (Fin 10)) \<noteq> 0"
    by (simp add: Zs_R_def zero_ext_def)
  have e: "Y_of (Fin (2::rat)) (V (Fin 5)) = Zoo"
    by (simp add: ext_one_over_zero)
  have h2: "Y_of (Fin (2::rat)) (V (Fin 5)) \<noteq> 0"
    unfolding e by (simp add: zero_ext_def)
  show ?thesis
    using h1 h2 e Z_Y_reciprocal [of "Fin 2" "R (Fin 10)"]
      Z_Y_reciprocal [of "Fin 2" "V (Fin 5)"]
    by blast
qed

subsection \<open>Voltage sources in parallel\<close>

lemma snd_Par_inner:
  "snd (Par_inner a rest) =
     (if op_isinstance a oc_V \<and> (\<exists>b\<in>set rest. op_isinstance b oc_V)
      then Inl (ValueError ''Voltage sources connected in parallel'') else Inr ())"
  by (induction rest) (auto simp: snd_bind)

lemma snd_Par_outer:
  "snd (Par_outer args) =
     (if two_of_class oc_V args
      then Inl (ValueError ''Voltage sources connected in parallel'') else Inr ())"
  by (induction args) (auto simp: snd_bind snd_Par_inner two_of_class_Cons)

lemma snd_Par_init:
  "snd (Par_init args) =
     (if two_of_class oc_V args
      then Inl (ValueError ''Voltage sources connected in parallel'') else Inr (ParSer Par args))"
  by (simp add: Par_init_def check_oneport_args_def snd_bind snd_Par_outer)

text \<open>
  C4. \<^verbatim>\<open>Par(*args)\<close> raises \<^verbatim>\<open>ValueError\<close> whenever two of its arguments are voltage
  sources of class \<^verbatim>\<open>V\<close>, whatever their values: the constructor compares the classes of
  the arguments and never their values.
\<close>

theorem Par_two_V_raises:
  assumes "two_of_class oc_V args"
  shows "snd (Par_init args) = Inl (ValueError ''Voltage sources connected in parallel'')"
  using assms by (simp add: snd_Par_init)

text \<open>C4 on \<^verbatim>\<open>Par(V(5), R(2), V(7))\<close>.\<close>

theorem Par_two_V_raises_witness:
  "two_of_class oc_V [V (5::rat), R 2, V 7]
   \<and> snd (Par_init [V (5::rat), R 2, V 7])
       = Inl (ValueError ''Voltage sources connected in parallel'')"
proof -
  have h: "two_of_class oc_V [V (5::rat), R 2, V 7]"
    by (simp add: two_of_class_Cons isinstance_V_iff)
  show ?thesis
    using h Par_two_V_raises [OF h] by blast
qed

text \<open>Two equal voltage sources in parallel: \<^verbatim>\<open>Par(V(5), V(5))\<close> raises all the same.\<close>

theorem Par_equal_V_counterexample:
  "Par_init [V (5::rat), V 5] = raise (ValueError ''Voltage sources connected in parallel'')"
  by (simp add: Par_init_def check_oneport_args_def isinstance_V_iff)

subsection \<open>Current sources in series\<close>

lemma snd_Ser_inner:
  "snd (Ser_inner a rest) =
     (if op_isinstance a oc_I \<and> (\<exists>b\<in>set rest. op_isinstance b oc_I)
      then Inl (ValueError ''Current sources connected in series'') else Inr ())"
  by (induction rest) (auto simp: snd_bind)

lemma snd_Ser_outer:
  "snd (Ser_outer args) =
     (if two_of_class oc_I args
      then Inl (ValueError ''Current sources connected in series'') else Inr ())"
  by (induction args) (auto simp: snd_bind snd_Ser_inner two_of_class_Cons)

lemma snd_Ser_init:
  "snd (Ser_init args) =
     (if two_of_class oc_I args
      then Inl (ValueError ''Current sources connected in series'') else Inr (ParSer Ser args))"
  by (simp add: Ser_init_def check_oneport_args_def snd_bind snd_Ser_outer)

lemma warn_in_Ser_inner:
  assumes "snd (Ser_inner a rest) = Inr ()"
    and "(op_isinstance a oc_I \<and> rest \<noteq> []) \<or> (\<exists>b\<in>set rest. op_isinstance b oc_I)"
  shows "Printed ''Warn: series connection with current source'' \<in> set (fst (Ser_inner a rest))"
  using assms
proof (induction rest)
  case Nil
  then show ?case by simp
next
  case (Cons b rest)
  from Cons.prems(1) have no: "\<not> (op_isinstance a oc_I \<and> op_isinstance b oc_I)"
    by (auto simp: snd_bind split: if_splits)
  with Cons.prems(1) have rest: "snd (Ser_inner a rest) = Inr ()"
    by (simp add: snd_bind)
  show ?case
  proof (cases "op_isinstance a oc_I \<or> op_isinstance b oc_I")
    case True
    with no show ?thesis
      by (auto simp: fst_bind)
  next
    case False
    with Cons.prems(2) have "\<exists>b\<in>set rest. op_isinstance b oc_I"
      by auto
    with Cons.IH rest have "Printed ''Warn: series connection with current source''
        \<in> set (fst (Ser_inner a rest))"
      by blast
    with False no show ?thesis
      by (simp add: fst_bind)
  qed
qed

lemma warn_in_Ser_outer:
  assumes "snd (Ser_outer args) = Inr ()"
    and "\<exists>X\<in>set args. op_isinstance X oc_I" and "2 \<le> length args"
  shows "Printed ''Warn: series connection with current source'' \<in> set (fst (Ser_outer args))"
  using assms
proof (induction args)
  case Nil
  then show ?case by simp
next
  case (Cons a rest)
  from Cons.prems(1) have inner: "snd (Ser_inner a rest) = Inr ()"
    by (auto simp: snd_bind split: sum.splits)
  from Cons.prems(3) have ne: "rest \<noteq> []"
    by auto
  from Cons.prems(2) have "(op_isinstance a oc_I \<and> rest \<noteq> []) \<or> (\<exists>b\<in>set rest. op_isinstance b oc_I)"
    using ne by auto
  with inner have "Printed ''Warn: series connection with current source''
      \<in> set (fst (Ser_inner a rest))"
    by (rule warn_in_Ser_inner)
  with inner show ?case
    by (simp add: fst_bind)
qed

text \<open>
  C5. \<^verbatim>\<open>Ser(*args)\<close> raises \<^verbatim>\<open>ValueError\<close> when two of its arguments are current
  sources of class \<^verbatim>\<open>I\<close>. Otherwise it returns the series combination; a single current
  source of class \<^verbatim>\<open>I\<close> among two or more arguments only prints the warning
  \<open>Warn: series connection with current source\<close>.
\<close>

theorem Ser_current_source_outcome:
  "(two_of_class oc_I args \<longrightarrow>
      snd (Ser_init args) = Inl (ValueError ''Current sources connected in series''))
   \<and> (\<not> two_of_class oc_I args \<longrightarrow>
        snd (Ser_init args) = Inr (ParSer Ser args)
        \<and> ((\<exists>X\<in>set args. op_isinstance X oc_I) \<and> 2 \<le> length args \<longrightarrow>
             Printed ''Warn: series connection with current source''
               \<in> set (fst (Ser_init args))))"
proof (intro conjI impI)
  assume "two_of_class oc_I args"
  then show "snd (Ser_init args) = Inl (ValueError ''Current sources connected in series'')"
    by (simp add: snd_Ser_init)
next
  assume "\<not> two_of_class oc_I args"
  then show "snd (Ser_init args) = Inr (ParSer Ser args)"
    by (simp add: snd_Ser_init)
next
  assume no: "\<not> two_of_class oc_I args"
    and some: "(\<exists>X\<in>set args. op_isinstance X oc_I) \<and> 2 \<le> length args"
  from no have outer: "snd (Ser_outer args) = Inr ()"
    by (simp add: snd_Ser_outer)
  with some have "Printed ''Warn: series connection with current source''
      \<in> set (fst (Ser_outer args))"
    by (intro warn_in_Ser_outer) auto
  with outer
  show "Printed ''Warn: series connection with current source'' \<in> set (fst (Ser_init args))"
    by (simp add: Ser_init_def check_oneport_args_def fst_bind)
qed

text \<open>C5 on \<^verbatim>\<open>Ser(I(1), I(2))\<close>, which raises, and on \<^verbatim>\<open>Ser(I(1), R(1))\<close>, which warns.\<close>

theorem Ser_current_source_outcome_witness:
  "two_of_class oc_I [I (1::rat), I 2]
   \<and> snd (Ser_init [I (1::rat), I 2]) = Inl (ValueError ''Current sources connected in series'')
   \<and> \<not> two_of_class oc_I [I (1::rat), R 1]
   \<and> op_isinstance (I (1::rat)) oc_I \<and> (2::nat) \<le> length [I (1::rat), R 1]
   \<and> snd (Ser_init [I (1::rat), R 1]) = Inr (ParSer Ser [I 1, R 1])
   \<and> Printed ''Warn: series connection with current source''
       \<in> set (fst (Ser_init [I (1::rat), R 1]))"
proof -
  have h1: "two_of_class oc_I [I (1::rat), I 2]"
    by (simp add: two_of_class_Cons isinstance_I_iff)
  have h2: "\<not> two_of_class oc_I [I (1::rat), R 1]"
    by (simp add: two_of_class_Cons isinstance_I_iff)
  have h3: "op_isinstance (I (1::rat)) oc_I"
    by (simp add: isinstance_I_iff)
  have h4: "(\<exists>X\<in>set [I (1::rat), R 1]. op_isinstance X oc_I) \<and> 2 \<le> length [I (1::rat), R 1]"
    using h3 by simp
  show ?thesis
    using h1 h2 h3 h4 Ser_current_source_outcome [of "[I (1::rat), I 2]"]
      Ser_current_source_outcome [of "[I (1::rat), R 1]"]
    by simp
qed

text \<open>
  A current source with one other element: \<^verbatim>\<open>Ser(I(1), R(1))\<close> prints the warning and
  returns the combination; it does not raise.
\<close>

theorem Ser_single_I_counterexample:
  "Ser_init [I (1::rat), R 1]
     = ([Printed ''Warn: series connection with current source''], Inr (ParSer Ser [I 1, R 1]))"
  by (simp add: Ser_init_def check_oneport_args_def isinstance_I_iff bind_eff_def ret_def
        print_def)

subsection \<open>Series capacitors\<close>

lemma Ser_init_no_I:
  "\<not> op_isinstance a oc_I \<Longrightarrow> \<not> op_isinstance b oc_I
     \<Longrightarrow> Ser_init [a, b] = ret (ParSer Ser [a, b])"
  by (simp add: Ser_init_def check_oneport_args_def)

lemma simplify_two_C:
  "simplify tsExpr Ser [C C1 v01, C C2 v02] deep
     = ret (C (C1 * C2 / (C1 + C2)) (Some (ic v01 + ic v02)))"
  by (simp add: simplify_scan_def combine_def combine_Ser_def isinstance_ParSer_iff)

text \<open>
  C6. \<^verbatim>\<open>C(C1, v01) + C(C2, v02)\<close> is the series combination of the two capacitors, and its
  \<^verbatim>\<open>simplify()\<close> returns the single capacitor \<^verbatim>\<open>C(C1*C2/(C1+C2), v01+v02)\<close>. For
  \<^verbatim>\<open>C(10) + C(15)\<close> this is the capacitor of capacitance 6 and initial voltage 0, whose
  impedance is \<open>1/(6 s)\<close>, the impedance of \<^verbatim>\<open>C(6)\<close>.
\<close>

theorem simplify_series_capacitors:
  fixes C1 :: "'a::field_char_0"
  shows "oneport_add (C C1 v01) (C C2 v02) = ret (ParSer Ser [C C1 v01, C C2 v02])
       \<and> simplify tsExpr Ser [C C1 v01, C C2 v02] deep
           = ret (C (C1 * C2 / (C1 + C2)) (Some (ic v01 + ic v02)))
       \<and> simplify tsExpr Ser [C 10 None, C 15 None] deep = ret (C (6::'a) (Some 0))
       \<and> Z_of s (C (6::'a) (Some 0)) = 1 / (6 * s)
       \<and> Z_of s (C (6::'a) (Some 0)) = Z_of s (C 6 None)"
proof (intro conjI)
  show "oneport_add (C C1 v01) (C C2 v02) = ret (ParSer Ser [C C1 v01, C C2 v02])"
    by (simp add: oneport_add_def Ser_init_no_I isinstance_I_iff)
  show "simplify tsExpr Ser [C C1 v01, C C2 v02] deep
          = ret (C (C1 * C2 / (C1 + C2)) (Some (ic v01 + ic v02)))"
    by (rule simplify_two_C)
  have "simplify tsExpr Ser [C 10 None, C 15 None] deep
          = ret (C ((10::'a) * 15 / (10 + 15)) (Some (ic None + ic None)))"
    by (rule simplify_two_C)
  then show "simplify tsExpr Ser [C 10 None, C 15 None] deep = ret (C (6::'a) (Some 0))"
    by simp
  show "Z_of s (C (6::'a) (Some 0)) = 1 / (6 * s)"
    by (simp add: Zs_C_def mult.commute)
  show "Z_of s (C (6::'a) (Some 0)) = Z_of s (C 6 None)"
    by simp
qed

section \<open>Degenerate conversions and combinations\<close>

text \<open>
  C7. \<^verbatim>\<open>A.Z\<close> of a chain matrix never raises: it returns the matrix of the closed formula,
  and warns (\<open>Producing dodgy Z matrix\<close>) exactly when \<open>A21\<close> is the zero expression. For the
  chain matrix of a pure series impedance (\<open>A12\<close> the impedance, \<open>A21\<close> zero) it warns and
  the formula gives the matrix with the four entries \<^verbatim>\<open>zoo\<close>.
\<close>

theorem AMatrix_Z_degenerate:
  fixes A :: "'a::field ext mat" and x :: 'a
  shows "AMatrix_Z A =
           (if m21 A = 0 then [Warned ''Producing dodgy Z matrix''] else [],
            Inr (Mat (m11 A / m21 A) (det A / m21 A) (1 / m21 A) (m22 A / m21 A)))
       \<and> AMatrix_Z (AMatrix_Zseries (Fin x)) =
           ([Warned ''Producing dodgy Z matrix''], Inr (Mat Zoo Zoo Zoo Zoo))"
  by (simp add: AMatrix_Z_def AMatrix_Zseries_def when_eff_def)
     (simp add: ret_def det_def divide_ext_def one_ext_def zero_ext_def minus_ext_def)

text \<open>
  C7 on \<^verbatim>\<open>AMatrix.Zseries(5)\<close>, and on the chain matrix with rows \<open>(1, 2)\<close> and \<open>(3, 4)\<close>,
  where nothing is degenerate.
\<close>

theorem AMatrix_Z_degenerate_witness:
  "AMatrix_Z (AMatrix_Zseries (Fin (5::rat))) =
     ([Warned ''Producing dodgy Z matrix''], Inr (Mat Zoo Zoo Zoo Zoo))
   \<and> AMatrix_Z (Mat (Fin 1) (Fin 2) (Fin 3) (Fin (4::rat))) =
     ([], Inr (Mat (Fin (1/3)) (Fin (- 2 / 3)) (Fin (1/3)) (Fin (4/3))))"
  using AMatrix_Z_degenerate [of "Mat (Fin 1) (Fin 2) (Fin 3) (Fin (4::rat))" 5]
  by (simp add: det_def divide_ext_def one_ext_def zero_ext_def minus_ext_def)

lemma Par2_init_pair:
  assumes "tp_Y T1 = ret Y1" and "tp_Y T2 = ret Y2"
  shows "Par2_init [T1, T2] =
           (if isinstance T1 cls_Shunt \<or> isinstance T2 cls_Shunt
            then [Printed ''Warning: need to handle a Shunt in parallel''] else [],
            Inr (TwoPortYModel cls_Par2 (mat_add Y1 Y2)
                   (tp_I1y T1 + tp_I1y T2) (tp_I2y T1 + tp_I2y T2)))"
  using assms
  by (simp add: Par2_init_def check_twoport_args_def super_Par2 model_init_def when_eff_def
        bind_eff_def ret_def print_def)

text \<open>
  C8. For two two-ports whose \<^verbatim>\<open>Y\<close> conversions return, \<^verbatim>\<open>Par2(T1, T2)\<close> returns the
  Y-model with the sum of the two \<^verbatim>\<open>Y\<close> matrices and the sums of \<^verbatim>\<open>I1y\<close> and of
  \<^verbatim>\<open>I2y\<close>. It prints \<open>Warning: need to handle a Shunt in parallel\<close> exactly when one
  operand is an instance of \<^verbatim>\<open>Shunt\<close> (the two-port with no valid Y model), and does not
  raise; an operand that is a \<^verbatim>\<open>Series\<close> two-port is not flagged.
\<close>

theorem Par2_Shunt_flagged:
  assumes "tp_Y T1 = ret Y1" and "tp_Y T2 = ret Y2"
  shows "Par2_init [T1, T2] =
           (if isinstance T1 cls_Shunt \<or> isinstance T2 cls_Shunt
            then [Printed ''Warning: need to handle a Shunt in parallel''] else [],
            Inr (TwoPortYModel cls_Par2 (mat_add Y1 Y2)
                   (tp_I1y T1 + tp_I1y T2) (tp_I2y T1 + tp_I2y T2)))"
  using assms by (rule Par2_init_pair)

text \<open>C8 on \<^verbatim>\<open>Par2(Shunt(R(1)), Series(R(1)))\<close>.\<close>

theorem Par2_Shunt_flagged_witness:
  "tp_Y (Shunt 1 0) = ret (BMatrix_Y (BMatrix_Yshunt (1::rat)))
   \<and> tp_Y (Series 1 0) = ret (BMatrix_Y (BMatrix_Zseries (1::rat)))
   \<and> isinstance (Shunt (1::rat) 0) cls_Shunt
   \<and> Par2_init [Shunt 1 0, Series 1 0] =
       ([Printed ''Warning: need to handle a Shunt in parallel''],
        Inr (TwoPortYModel cls_Par2
               (mat_add (BMatrix_Y (BMatrix_Yshunt (1::rat))) (BMatrix_Y (BMatrix_Zseries 1)))
               (tp_I1y (Shunt 1 0) + tp_I1y (Series 1 0))
               (tp_I2y (Shunt 1 0) + tp_I2y (Series 1 0))))"
proof -
  have h1: "tp_Y (Shunt 1 0) = ret (BMatrix_Y (BMatrix_Yshunt (1::rat)))"
    by (simp add: Shunt_def)
  have h2: "tp_Y (Series 1 0) = ret (BMatrix_Y (BMatrix_Zseries (1::rat)))"
    by (simp add: Series_def)
  have h3: "isinstance (Shunt (1::rat) 0) cls_Shunt"
    by simp
  show ?thesis
    using h1 h2 h3 Par2_Shunt_flagged [OF h1 h2] by simp
qed

text \<open>
  Two pure-series operands: \<^verbatim>\<open>Par2(Series(R(1)), Series(R(1)))\<close> returns the summed
  Y-model and nothing is printed or warned.
\<close>

theorem Par2_Series_not_flagged_counterexample:
  "Par2_init [Series 1 0, Series 1 0]
     = ([], Inr (TwoPortYModel cls_Par2 (Mat 2 (- 2) (- 2) (2::rat)) 0 0))"
proof -
  have e: "tp_Y (Series 1 (0::rat)) = ret (Mat 1 (- 1) (- 1) 1)"
    by (simp add: Series_def BMatrix_Zseries_def BMatrix_Y_def det_def)
  show ?thesis
    using Par2_init_pair [OF e e]
    by (simp add: mat_add_def) (simp add: Series_def BMatrix_Zseries_def)
qed

section \<open>Constructors that cannot return\<close>

text \<open>
  C9. \<^verbatim>\<open>InverseHybrid2(T1, T2)\<close> on two G-models with the G matrix of rows \<open>(1, 2)\<close> and
  \<open>(3, 4)\<close>: the sums are computed, then \<^verbatim>\<open>super(Hybrid2, self)\<close> raises \<^verbatim>\<open>TypeError\<close>,
  since \<^verbatim>\<open>InverseHybrid2\<close> does not derive from \<^verbatim>\<open>Hybrid2\<close>. No two-port is returned.
\<close>

theorem InverseHybrid2_raises:
  "InverseHybrid2_init
     [TwoPortGModel cls_TwoPortGModel (Mat 1 2 3 (4::rat)) 0 0,
      TwoPortGModel cls_TwoPortGModel (Mat 1 2 3 4) 0 0]
   = raise (TypeError ''super(type, obj): obj must be an instance or subtype of type'')"
  by (simp add: InverseHybrid2_init_def check_twoport_args_def super_InverseHybrid2)

text \<open>The same holds of every argument list: \<^verbatim>\<open>InverseHybrid2.__init__\<close> always raises.\<close>

lemma InverseHybrid2_never_returns: "\<exists>w e. InverseHybrid2_init args = (w, Inl e)"
proof -
  have last: "\<exists>w e. bind_eff (py_super cls_Hybrid2 cls_InverseHybrid2)
                 (\<lambda>c. model_init c cls_InverseHybrid2 (OfMatrix (GMatrix, G0)) I1g V2g)
               = (w, Inl e)" for I1g V2g :: 'a and G0
    by (simp add: super_InverseHybrid2) (simp add: raise_def)
  show ?thesis
    unfolding InverseHybrid2_init_def Let_def
    by (intro bind_fails) (auto simp: last)
qed

lemma FerriteBead_expand_network:
  "FerriteBead_expand Rs Rp Cp Lp = ret (FerriteBead_network Rs Rp Cp Lp)"
  by (simp add: FerriteBead_expand_def FerriteBead_network_def oneport_add_def Ser_init_no_I
        isinstance_I_iff)

lemma Xtal_expand_network: "Xtal_expand C0 R1 L1 C1 = ret (Xtal_network C0 R1 L1 C1)"
  by (simp add: Xtal_expand_def Xtal_network_def oneport_add_def oneport_or_def Ser_init_no_I
        isinstance_I_iff Par_init_def check_oneport_args_def isinstance_V_iff)

lemma op_super_Xtal_FerriteBead:
  "op_super oc_Xtal oc_FerriteBead =
     raise (TypeError ''super(type, obj): obj must be an instance or subtype of type'')"
  by (simp add: op_super_def op_issubclass_def op_mro_eval)

lemma op_super_Xtal_Xtal: "op_super oc_Xtal oc_Xtal = ret oc_Thevenin"
  by (simp add: op_super_def op_issubclass_def op_mro_eval)

text \<open>The crystal, whose \<^verbatim>\<open>__init__\<close> has the same last lines, is built.\<close>

lemma Xtal_init_returns: "Xtal_init C0 R1 L1 C1 = ret (Xtal C0 R1 L1 C1)"
  by (simp add: Xtal_init_def Xtal_expand_network op_super_Xtal_Xtal thevenin_base_init_def)

text \<open>
  C10. For every \<open>Rs\<close>, \<open>Rp\<close>, \<open>Cp\<close>, \<open>Lp\<close>, \<^verbatim>\<open>FerriteBead(Rs, Rp, Cp, Lp)\<close> raises and
  returns no object: the expansion is built, then \<^verbatim>\<open>super(Xtal, self)\<close> raises
  \<^verbatim>\<open>TypeError\<close>, since \<^verbatim>\<open>FerriteBead\<close> derives from \<^verbatim>\<open>Thevenin\<close> and not from \<^verbatim>\<open>Xtal\<close>.
\<close>

theorem FerriteBead_init_raises:
  "FerriteBead_init Rs Rp Cp Lp =
     raise (TypeError ''super(type, obj): obj must be an instance or subtype of type'')"
  by (simp add: FerriteBead_init_def FerriteBead_expand_network op_super_Xtal_FerriteBead)

end
